theory Spec2Isabelle
  imports Complex_Main "HOL-Library.AList" "HOL-Library.Char_ord" "HOL-Library.List_Lexorder"
    "HOL-Library.Product_Lexorder"
begin

section \<open>Temporal assignment (compile\_xml.py)\<close>

text \<open>
  \<^verbatim>\<open>parse_time\<close> yields seconds with a fractional part; the lookups only compare such
  values with \<^verbatim>\<open><=\<close>, \<^verbatim>\<open><\<close> and \<^verbatim>\<open>==\<close>, so a time is modelled as a real number.
\<close>

type_synonym time = real

text \<open>
  \<^verbatim>\<open>
  def assign_block(time, blocks):
      for i in range(len(blocks) - 1):
          if blocks[i][1] <= time < blocks[i + 1][1]:
              return blocks[i][0]
      return blocks[-1][0] if blocks else None
  \<close>
  The loop visits the adjacent pairs \<open>(blocks[i], blocks[i+1])\<close> from the left; the
  recursion below visits the same pairs in the same order and falls through to the last
  entry. The result is \<open>None\<close> exactly where Python returns \<^verbatim>\<open>None\<close>.
\<close>

fun assign_block :: "time \<Rightarrow> (string \<times> time) list \<Rightarrow> string option" where
  "assign_block t [] = None"
| "assign_block t [b] = Some (fst b)"
| "assign_block t (b # c # bs) =
     (if snd b \<le> t \<and> t < snd c then Some (fst b) else assign_block t (c # bs))"

fun assign_topic :: "time \<Rightarrow> (string \<times> time) list \<Rightarrow> string option" where
  "assign_topic t [] = None"
| "assign_topic t [b] = Some (fst b)"
| "assign_topic t (b # c # bs) =
     (if snd b \<le> t \<and> t < snd c then Some (fst b) else assign_topic t (c # bs))"

text \<open>
  \<^verbatim>\<open>
  def assign_entities(time, entities):
      for entity_time, entity_list in entities:
          if entity_time == time:
              return entity_list
      return []
  \<close>
\<close>

fun assign_entities :: "time \<Rightarrow> (time \<times> (string \<times> string) list) list \<Rightarrow> (string \<times> string) list" where
  "assign_entities t [] = []"
| "assign_entities t ((entity_time, entity_list) # entities) =
     (if entity_time = t then entity_list else assign_entities t entities)"

text \<open>\<^verbatim>\<open>assign_proposals\<close> and \<^verbatim>\<open>assign_fact_checking\<close> return \<^verbatim>\<open>None\<close> when nothing matches.\<close>

fun assign_proposals :: "time \<Rightarrow> (time \<times> string list) list \<Rightarrow> string list option" where
  "assign_proposals t [] = None"
| "assign_proposals t ((fc_time, datos) # proposals) =
     (if fc_time = t then Some datos else assign_proposals t proposals)"

fun assign_fact_checking :: "time \<Rightarrow> (time \<times> string list) list \<Rightarrow> string list option" where
  "assign_fact_checking t [] = None"
| "assign_fact_checking t ((fc_time, datos) # fact_checking) =
     (if fc_time = t then Some datos else assign_fact_checking t fact_checking)"

section \<open>Python strings and element trees\<close>

text \<open>
  A Python \<^verbatim>\<open>str\<close> is a \<open>string\<close> holding the UTF-8 bytes of the text (the byte-wise
  lexicographic order of UTF-8 is the code point order Python compares by).

  \<^verbatim>\<open>str.strip()\<close> removes the leading and trailing white space characters, those of
  \<^verbatim>\<open>str.isspace\<close>: U+0009 to U+000D, U+001C to U+001F, U+0020, U+0085, U+00A0, U+1680,
  U+2000 to U+200A, U+2028, U+2029, U+202F, U+205F and U+3000. The list below holds
  their UTF-8 encodings; no encoding is a prefix or a suffix of another, and in
  well-formed UTF-8 a string starts (ends) with such a byte sequence exactly when its
  first (last) character is that white space character.
\<close>

definition whitespace_utf8 :: "string list" where
  "whitespace_utf8 =
     [[CHR 0x09], [CHR 0x0A], [CHR 0x0B], [CHR 0x0C], [CHR 0x0D],
      [CHR 0x1C], [CHR 0x1D], [CHR 0x1E], [CHR 0x1F], [CHR 0x20],
      [CHR 0xC2, CHR 0x85], [CHR 0xC2, CHR 0xA0], [CHR 0xE1, CHR 0x9A, CHR 0x80],
      [CHR 0xE2, CHR 0x80, CHR 0x80], [CHR 0xE2, CHR 0x80, CHR 0x81], [CHR 0xE2, CHR 0x80, CHR 0x82],
      [CHR 0xE2, CHR 0x80, CHR 0x83], [CHR 0xE2, CHR 0x80, CHR 0x84], [CHR 0xE2, CHR 0x80, CHR 0x85],
      [CHR 0xE2, CHR 0x80, CHR 0x86], [CHR 0xE2, CHR 0x80, CHR 0x87], [CHR 0xE2, CHR 0x80, CHR 0x88],
      [CHR 0xE2, CHR 0x80, CHR 0x89], [CHR 0xE2, CHR 0x80, CHR 0x8A], [CHR 0xE2, CHR 0x80, CHR 0xA8],
      [CHR 0xE2, CHR 0x80, CHR 0xA9], [CHR 0xE2, CHR 0x80, CHR 0xAF], [CHR 0xE2, CHR 0x81, CHR 0x9F],
      [CHR 0xE3, CHR 0x80, CHR 0x80]]"

text \<open>\<open>after_prefix w s\<close> is the rest of \<open>s\<close> after its prefix \<open>w\<close>, if \<open>s\<close> starts
  with \<open>w\<close>; \<open>after_any ws s\<close> tries the byte sequences \<open>ws\<close> in turn.\<close>

fun after_prefix :: "string \<Rightarrow> string \<Rightarrow> string option" where
  "after_prefix [] s = Some s"
| "after_prefix (a # w) [] = None"
| "after_prefix (a # w) (b # s) = (if a = b then after_prefix w s else None)"

fun after_any :: "string list \<Rightarrow> string \<Rightarrow> string option" where
  "after_any [] s = None"
| "after_any (w # ws) s = (case after_prefix w s of Some r \<Rightarrow> Some r | None \<Rightarrow> after_any ws s)"

text \<open>Removing leading characters as long as the string starts with one of the byte
  sequences (an empty sequence is no character and is not tried).\<close>

function strip_left :: "string list \<Rightarrow> string \<Rightarrow> string" where
  "strip_left ws s = (case after_any (filter (\<lambda>w. w \<noteq> []) ws) s of None \<Rightarrow> s | Some r \<Rightarrow> strip_left ws r)"
  by pat_completeness auto
termination
proof (relation "measure (\<lambda>(ws, s). length s)")
  show "wf (measure (\<lambda>(ws, s). length s))" by simp
next
  fix ws :: "string list" and s r :: string
  assume a: "after_any (filter (\<lambda>w. w \<noteq> []) ws) s = Some r"
  have p: "after_prefix w s = Some r \<Longrightarrow> length r + length w = length s" for w
    by (induction w s rule: after_prefix.induct) (auto split: if_splits)
  have "\<forall>w \<in> set vs. w \<noteq> [] \<Longrightarrow> after_any vs s = Some r \<Longrightarrow> length r < length s" for vs
  proof (induction vs)
    case Nil
    then show ?case by simp
  next
    case (Cons v vs)
    show ?case
    proof (cases "after_prefix v s")
      case None
      with Cons show ?thesis by simp
    next
      case (Some q)
      with Cons.prems have "q = r" by simp
      with p[of v] Some Cons.prems(1) show ?thesis by (cases v) auto
    qed
  qed
  from this[of "filter (\<lambda>w. w \<noteq> []) ws"] a
  show "((ws, r), (ws, s)) \<in> measure (\<lambda>(ws, s). length s)" by simp
qed

declare strip_left.simps [simp del]

text \<open>\<^verbatim>\<open>s.strip()\<close>: the leading white space is removed, then the trailing white space,
  found as leading in the reversed string with the reversed encodings.\<close>

definition strip :: "string \<Rightarrow> string" where
  "strip s = rev (strip_left (map rev whitespace_utf8) (rev (strip_left whitespace_utf8 s)))"


text \<open>\<^verbatim>\<open>sep.join(parts)\<close>.\<close>

fun join :: "string \<Rightarrow> string list \<Rightarrow> string" where
  "join sep [] = []"
| "join sep [p] = p"
| "join sep (p # q # ps) = p @ sep @ join sep (q # ps)"

text \<open>\<^verbatim>\<open>s.split(". ")\<close>: the pieces between the non-overlapping occurrences of the
  separator, found from the left; \<open>cur\<close> holds the current piece, reversed.\<close>

fun split_dot_from :: "string \<Rightarrow> string \<Rightarrow> string list" where
  "split_dot_from cur [] = [rev cur]"
| "split_dot_from cur [c] = [rev (c # cur)]"
| "split_dot_from cur (c # d # cs) =
     (if c = CHR ''.'' \<and> d = CHR '' '' then rev cur # split_dot_from [] cs
      else split_dot_from (c # cur) (d # cs))"

definition split_dot :: "string \<Rightarrow> string list" where
  "split_dot s = split_dot_from [] s"

text \<open>\<^verbatim>\<open>str(n)\<close> for a natural number, and the format \<^verbatim>\<open>{n:03d}\<close>.\<close>

fun str_nat :: "nat \<Rightarrow> string" where
  "str_nat n = (if n < 10 then [''0123456789'' ! n]
                else str_nat (n div 10) @ [''0123456789'' ! (n mod 10)])"

declare str_nat.simps [simp del]

definition format_03d :: "nat \<Rightarrow> string" where
  "format_03d n = replicate (3 - length (str_nat n)) CHR ''0'' @ str_nat n"

text \<open>
  An \<^verbatim>\<open>xml.etree.ElementTree.Element\<close>: tag, attribute dictionary (an association list
  in insertion order), text and children. The type \<open>'v\<close> of attribute values is
  \<open>string\<close> in a parsed document and \<open>string option\<close> in a tree built in memory, where
  the code can store Python's \<^verbatim>\<open>None\<close> as a value.
\<close>

datatype 'v xml = Element (tag: string) (attrib: "(string \<times> 'v) list") (text_of: "string option")
  (children: "'v xml list")

text \<open>\<^verbatim>\<open>e.find(t)\<close> is the first child with tag \<open>t\<close>, \<^verbatim>\<open>e.findall(t)\<close> all of them in
  document order; \<^verbatim>\<open>e.findall(".//t")\<close> ranges over all descendants in document order.\<close>

definition find_el :: "string \<Rightarrow> 'v xml \<Rightarrow> 'v xml option" where
  "find_el t e = List.find (\<lambda>c. tag c = t) (children e)"

definition findall :: "string \<Rightarrow> 'v xml \<Rightarrow> 'v xml list" where
  "findall t e = filter (\<lambda>c. tag c = t) (children e)"



text \<open>\<^verbatim>\<open>e.attrib.get(k)\<close> on a parsed element: the value, or \<open>None\<close> for Python's
  \<^verbatim>\<open>None\<close>; \<^verbatim>\<open>e.attrib.get(k, d)\<close> with a default. On a tree built in memory a stored
  \<^verbatim>\<open>None\<close> and a missing key read alike.\<close>

definition get_attr :: "'v xml \<Rightarrow> string \<Rightarrow> 'v option" where
  "get_attr e k = map_of (attrib e) k"

definition get_attr_default :: "'v xml \<Rightarrow> string \<Rightarrow> 'v \<Rightarrow> 'v" where
  "get_attr_default e k d = (case map_of (attrib e) k of None \<Rightarrow> d | Some v \<Rightarrow> v)"

definition get_attr_mem :: "string option xml \<Rightarrow> string \<Rightarrow> string option" where
  "get_attr_mem e k = (case map_of (attrib e) k of None \<Rightarrow> None | Some v \<Rightarrow> v)"

text \<open>\<^verbatim>\<open>e.set(k, v)\<close>: a dictionary store, keeping the position of an existing key.\<close>

definition set_attr :: "string \<Rightarrow> 'v \<Rightarrow> 'v xml \<Rightarrow> 'v xml" where
  "set_attr k v e = Element (tag e) (AList.update k v (attrib e)) (text_of e) (children e)"

text \<open>Python's truth value of a string or \<^verbatim>\<open>None\<close>.\<close>

definition truthy :: "string option \<Rightarrow> bool" where
  "truthy v = (case v of None \<Rightarrow> False | Some s \<Rightarrow> s \<noteq> [])"

section \<open>Document assembly (compile\_xml.py, generate\_xml)\<close>

datatype py_error = KeyError | AttributeError | TypeError

text \<open>
  One row of the segments table, as the loop of \<^verbatim>\<open>generate_xml\<close> reads it:
  \<^verbatim>\<open>parse_time(row["inicio"])\<close>, \<^verbatim>\<open>row["nombre"]\<close>, \<^verbatim>\<open>row["texto"]\<close> and the eight
  statistics already printed by \<^verbatim>\<open>str\<close> under their attribute names.
\<close>

record row =
  inicio :: time
  nombre :: string
  texto :: string
  stats :: "(string \<times> string) list"

text \<open>
  \<^verbatim>\<open>
  entidades_asignadas = assign_entities(seg_time, entities)
  entidades_asignadas = sorted({(type, nombre) for type, nombre in entidades_asignadas},
                               key=lambda x: (x[0], x[1]))
  \<close>
  The set removes duplicates; the key is the pair itself, so the sorted list does not
  depend on the order in which the set is walked.
\<close>

definition entidades_asignadas :: "time \<Rightarrow> (time \<times> (string \<times> string) list) list \<Rightarrow> (string \<times> string) list" where
  "entidades_asignadas seg_time entities = sorted_list_of_set (set (assign_entities seg_time entities))"

text \<open>
  \<^verbatim>\<open>
  if entidades_asignadas:
      entidades_element = ET.SubElement(intervention, "mentions")
      for entidad_id, (type, nombre) in enumerate(entidades_asignadas):
          ET.SubElement(entidades_element, "mention", id=f"e{entidad_id}", type=type, text=nombre)
  \<close>
  and the same shape for proposals (\<^verbatim>\<open>pr\<close>) and claims (\<^verbatim>\<open>r\<close>), whose items are the
  text of the child.
\<close>

definition mentions_element :: "(string \<times> string) list \<Rightarrow> string option xml list" where
  "mentions_element es =
     (if es \<noteq> [] then
        [Element ''mentions'' [] None
           (map (\<lambda>(entidad_id, (type, nombre)).
                   Element ''mention''
                     [(''id'', Some (''e'' @ str_nat entidad_id)), (''type'', Some type),
                      (''text'', Some nombre)] None [])
                (List.enumerate 0 es))]
      else [])"

definition items_element :: "string \<Rightarrow> string \<Rightarrow> string \<Rightarrow> string list option \<Rightarrow> string option xml list" where
  "items_element grp item pre asignadas =
     (case asignadas of
        None \<Rightarrow> []
      | Some xs \<Rightarrow>
          if xs \<noteq> [] then
            [Element grp [] None
               (map (\<lambda>(k, x). Element item [(''id'', Some (pre @ str_nat k))] (Some x) [])
                    (List.enumerate 0 xs))]
          else [])"

text \<open>
  \<^verbatim>\<open>
  for sent_id, sentence in enumerate(row["texto"].split(". ")):
      if sentence:
          ET.SubElement(sentences_element, "sentence", id=f"s{sent_id}").text = sentence.strip()
  \<close>
\<close>

definition sentences_element :: "string \<Rightarrow> string option xml" where
  "sentences_element txt =
     Element ''sentences'' [] None
       (map (\<lambda>(sent_id, sentence).
               Element ''sentence'' [(''id'', Some (''s'' @ str_nat sent_id))] (Some (strip sentence)) [])
            (filter (\<lambda>(sent_id, sentence). sentence \<noteq> []) (List.enumerate 0 (split_dot txt))))"

text \<open>
  The body of the loop over the rows (lines 258 to 312): the block label under which the
  intervention is appended and the intervention element, \<open>None\<close> when
  \<^verbatim>\<open>if block_topic:\<close> fails and the row leaves nothing in the document.
  \<^verbatim>\<open>participants_dict[row["nombre"]]\<close> raises \<^verbatim>\<open>KeyError\<close> for an unknown speaker.
  The argument \<open>n\<close> is \<^verbatim>\<open>intervention_global_id\<close>.
\<close>

definition make_intervention ::
  "(string \<times> time) list \<Rightarrow> (string \<times> time) list \<Rightarrow> (time \<times> (string \<times> string) list) list \<Rightarrow>
   (time \<times> string list) list \<Rightarrow> (time \<times> string list) list \<Rightarrow> (string \<rightharpoonup> string) \<Rightarrow>
   nat \<Rightarrow> row \<Rightarrow> py_error + (string \<times> string option xml) option" where
  "make_intervention blocks topics entities proposals fact_checking participants_dict n r =
     (let seg_time = inicio r;
          block_topic = assign_block seg_time blocks;
          topic_asignado = assign_topic seg_time topics;
          es = entidades_asignadas seg_time entities;
          proposals_asignadas = assign_proposals seg_time proposals;
          fact_checking_asignado = assign_fact_checking seg_time fact_checking
      in if truthy block_topic then
           (case participants_dict (nombre r) of
              None \<Rightarrow> Inl KeyError
            | Some participant_id \<Rightarrow>
                Inr (Some (case block_topic of None \<Rightarrow> [] | Some b \<Rightarrow> b,
                  Element ''intervention''
                    [(''id'', Some (''i'' @ format_03d n)), (''participant-id'', Some participant_id),
                     (''topic'', topic_asignado)] None
                    (mentions_element es
                     @ items_element ''proposals'' ''proposal'' ''pr'' proposals_asignadas
                     @ items_element ''claims'' ''claim'' ''r'' fact_checking_asignado
                     @ [Element ''linguistic-stats'' (map (\<lambda>(k, v). (k, Some v)) (stats r)) None [],
                        sentences_element (texto r)]))))
         else Inr None)"

text \<open>The mentions of the intervention a row gives, as (id, type, text), read back from
  the element (empty when the row leaves no intervention or it has no mentions child).\<close>

definition mention_triple :: "string option xml \<Rightarrow> string option \<times> string option \<times> string option" where
  "mention_triple m = (get_attr_mem m ''id'', get_attr_mem m ''type'', get_attr_mem m ''text'')"

definition intervention_mentions :: "string option xml \<Rightarrow> (string option \<times> string option \<times> string option) list" where
  "intervention_mentions i =
     (case find_el ''mentions'' i of None \<Rightarrow> []
      | Some ms \<Rightarrow> map mention_triple (findall ''mention'' ms))"

definition assembled_mentions ::
  "(string \<times> time) list \<Rightarrow> (string \<times> time) list \<Rightarrow> (time \<times> (string \<times> string) list) list \<Rightarrow>
   (time \<times> string list) list \<Rightarrow> (time \<times> string list) list \<Rightarrow> (string \<rightharpoonup> string) \<Rightarrow>
   nat \<Rightarrow> row \<Rightarrow> (string option \<times> string option \<times> string option) list option" where
  "assembled_mentions blocks topics entities proposals fact_checking participants_dict n r =
     (case make_intervention blocks topics entities proposals fact_checking participants_dict n r of
        Inr (Some (b, i)) \<Rightarrow> Some (intervention_mentions i)
      | _ \<Rightarrow> None)"

text \<open>The block label under which the row's intervention is appended, \<open>None\<close> when the
  row leaves no intervention (or the speaker is unknown and the run stops).\<close>

definition assembled_block ::
  "(string \<times> time) list \<Rightarrow> (string \<times> time) list \<Rightarrow> (time \<times> (string \<times> string) list) list \<Rightarrow>
   (time \<times> string list) list \<Rightarrow> (time \<times> string list) list \<Rightarrow> (string \<rightharpoonup> string) \<Rightarrow>
   nat \<Rightarrow> row \<Rightarrow> string option" where
  "assembled_block blocks topics entities proposals fact_checking participants_dict n r =
     (case make_intervention blocks topics entities proposals fact_checking participants_dict n r of
        Inr (Some (b, i)) \<Rightarrow> Some b
      | _ \<Rightarrow> None)"

section \<open>Annotation merge-back (classify\_emotions.py, generate\_emotions)\<close>




text \<open>
  \<^verbatim>\<open>
  for sentence in intervention.findall("sentence"):
      if sentence.attrib.get("id") == sent_id:
          sentence.set("emotions", tags)
          break
  \<close>
  The loop changes the first element of the list that satisfies the test and stops.
\<close>

fun update_first :: "('a \<Rightarrow> bool) \<Rightarrow> ('a \<Rightarrow> 'a) \<Rightarrow> 'a list \<Rightarrow> 'a list" where
  "update_first P f [] = []"
| "update_first P f (x # xs) = (if P x then f x # xs else x # update_first P f xs)"

definition is_sentence :: "string option \<Rightarrow> string option xml \<Rightarrow> bool" where
  "is_sentence sent_id sentence = (tag sentence = ''sentence'' \<and> get_attr_mem sentence ''id'' = sent_id)"

definition tag_sentence :: "string option \<Rightarrow> string option \<Rightarrow> string option xml \<Rightarrow> string option xml" where
  "tag_sentence sent_id tags intervention =
     Element (tag intervention) (attrib intervention) (text_of intervention)
       (update_first (is_sentence sent_id) (set_attr ''emotions'' tags) (children intervention))"

text \<open>
  One line of the classifier's answer, after \<^verbatim>\<open>strip\<close> and \<^verbatim>\<open>ET.fromstring\<close>: \<open>None\<close>
  for a blank line and for a line on which the parser raises \<^verbatim>\<open>ParseError\<close> (both
  \<^verbatim>\<open>continue\<close>), otherwise the parsed element.
  \<^verbatim>\<open>
  int_id = emotion_elem.attrib.get("int_id")
  sent_id = emotion_elem.attrib.get("sent_id")
  tags = emotion_elem.attrib.get("tags")
  for intervention in filtered_root.findall("intervention"):
      if intervention.attrib.get("id") == int_id:
          for sentence in intervention.findall("sentence"): ...
  \<close>
  The outer loop has no \<^verbatim>\<open>break\<close>: every intervention child whose id equals
  \<open>int_id\<close> is visited.
\<close>

definition is_intervention :: "string option \<Rightarrow> string option xml \<Rightarrow> bool" where
  "is_intervention int_id intervention =
     (tag intervention = ''intervention'' \<and> get_attr_mem intervention ''id'' = int_id)"

definition merge_line :: "string xml option \<Rightarrow> string option xml \<Rightarrow> string option xml" where
  "merge_line line tree =
     (case line of
        None \<Rightarrow> tree
      | Some emotion_elem \<Rightarrow>
          (let int_id = get_attr emotion_elem ''int_id'';
               sent_id = get_attr emotion_elem ''sent_id'';
               tags = get_attr emotion_elem ''tags''
           in Element (tag tree) (attrib tree) (text_of tree)
                (map (\<lambda>intervention.
                        if is_intervention int_id intervention
                        then tag_sentence sent_id tags intervention else intervention)
                     (children tree))))"

definition merge_back :: "string xml option list \<Rightarrow> string option xml \<Rightarrow> string option xml" where
  "merge_back lines tree = fold merge_line lines tree"

text \<open>The pair of identifiers a parsed line addresses.\<close>

definition line_key :: "string xml \<Rightarrow> string option \<times> string option" where
  "line_key e = (get_attr e ''int_id'', get_attr e ''sent_id'')"




section \<open>Aggregation (generate\_html\_reports.py)\<close>

text \<open>
  The accumulators are Python dictionaries with string keys. The model keeps the
  entries the counting and the text maps live in: the counts of interventions, claims,
  proposals and fallacies, the three text-to-origin dictionaries, the set of debates,
  and the speaker's party and the party's participants. The other entries (sentence and
  word counts, linguistic statistics, emotions, topics, mentions) are written by the
  same functions but never read back by the code modelled here; the one place where
  they can stop the run (line 236, a missing \<^verbatim>\<open>sentences\<close> child) is modelled.

  A text maps to its origin \<^verbatim>\<open>(d_id, i_id, full_text)\<close>; \<^verbatim>\<open>i_id\<close> is
  \<^verbatim>\<open>intervention.get("id", None)\<close>, a string or \<^verbatim>\<open>None\<close>.
\<close>

type_synonym origin = "string \<times> string option \<times> string"

record metrics =
  interventions :: nat
  claims :: nat
  proposals :: nat
  fallacies :: nat
  claims_texts :: "string \<rightharpoonup> origin"
  proposals_texts :: "string \<rightharpoonup> origin"
  fallacies_texts :: "string \<rightharpoonup> origin"
  debates :: "string set"

record speaker_entry = metrics +
  full_name :: string
  party :: string

record party_entry = metrics +
  participants :: "string set"

text \<open>
  \<^verbatim>\<open>
  def parse_participants(participants_node):
      participants_mapping = {}
      if participants_node is not None:
          for participant in participants_node.findall("participant"):
              pid = participant.get("id")
              full_name = participant.get("full-name", "Unknown").strip()
              party = participant.get("party", "No party").strip()
              participants_mapping[pid] = {"full_name": full_name, "party": party}
      return participants_mapping
  \<close>
  The key \<^verbatim>\<open>pid\<close> can be \<^verbatim>\<open>None\<close>; the value is the pair (full\_name, party).
\<close>

definition parse_participants :: "string xml option \<Rightarrow> (string option \<rightharpoonup> string \<times> string)" where
  "parse_participants participants_node =
     (case participants_node of
        None \<Rightarrow> Map.empty
      | Some node \<Rightarrow>
          fold (\<lambda>participant participants_mapping.
                  participants_mapping(get_attr participant ''id'' \<mapsto>
                    (strip (get_attr_default participant ''full-name'' ''Unknown''),
                     strip (get_attr_default participant ''party'' ''No party''))))
               (findall ''participant'' node) Map.empty)"

text \<open>
  What \<^verbatim>\<open>process_intervention\<close> returns (the entries modelled). A recorded text is
  the tuple \<^verbatim>\<open>(formatted, debate_id, intervention_id, full_intervention_text, speaker_name)\<close>.
\<close>

type_synonym text_entry = "string \<times> string \<times> string option \<times> string \<times> string"

record intervention_info =
  intervention_id :: "string option"
  speaker_key :: string
  party_key :: string
  full_intervention_text :: string
  num_claims :: nat
  num_proposals :: nat
  num_fallacies :: nat
  info_claims_texts :: "text_entry list"
  info_proposals_texts :: "text_entry list"
  info_fallacies_texts :: "text_entry list"

text \<open>
  \<^verbatim>\<open>
  pid = intervention.get("participant-id")
  speaker_name = participants_mapping.get(pid, {}).get("full_name", "Unknown")
  speaker_key = speaker_name.strip() if speaker_name.strip() else "Unknown"
  party = participants_mapping.get(pid, {}).get("party", "No party").strip()
  party_key = party if party else "No party"
  \<close>
\<close>

definition speaker_name_of :: "(string option \<rightharpoonup> string \<times> string) \<Rightarrow> string xml \<Rightarrow> string" where
  "speaker_name_of participants_mapping intervention =
     (case participants_mapping (get_attr intervention ''participant-id'') of
        None \<Rightarrow> ''Unknown'' | Some p \<Rightarrow> fst p)"

definition speaker_key_of :: "(string option \<rightharpoonup> string \<times> string) \<Rightarrow> string xml \<Rightarrow> string" where
  "speaker_key_of participants_mapping intervention =
     (let speaker_name = speaker_name_of participants_mapping intervention
      in if strip speaker_name \<noteq> [] then strip speaker_name else ''Unknown'')"

definition party_of :: "(string option \<rightharpoonup> string \<times> string) \<Rightarrow> string xml \<Rightarrow> string" where
  "party_of participants_mapping intervention =
     strip (case participants_mapping (get_attr intervention ''participant-id'') of
              None \<Rightarrow> ''No party'' | Some p \<Rightarrow> snd p)"

definition party_key_of :: "(string option \<rightharpoonup> string \<times> string) \<Rightarrow> string xml \<Rightarrow> string" where
  "party_key_of participants_mapping intervention =
     (let party = party_of participants_mapping intervention
      in if party \<noteq> [] then party else ''No party'')"

text \<open>\<^verbatim>\<open>x.text.strip() if x.text else ""\<close>\<close>

definition stripped_text :: "string xml \<Rightarrow> string" where
  "stripped_text x = (case text_of x of None \<Rightarrow> [] | Some t \<Rightarrow> if t \<noteq> [] then strip t else [])"

text \<open>\<^verbatim>\<open>" ".join(sentence.text.strip() for sentence in sentences_list if sentence.text)\<close>\<close>

definition full_text_of :: "string xml list \<Rightarrow> string" where
  "full_text_of sentences_list =
     join '' '' (map stripped_text (filter (\<lambda>sentence. truthy (text_of sentence)) sentences_list))"

text \<open>
  \<^verbatim>\<open>
  claims_node = intervention.find("claims")
  claims_texts = []
  num_claims = 0
  if claims_node is not None:
      claims = claims_node.findall("claim")
      num_claims = len(claims)
      for claim in claims:
          claim_text = claim.text.strip() if claim.text else ""
          if claim_text and intervention_id and speaker_name not in ["MODERADOR", "DECLARACIONES"]:
              formatted_claim = f"{speaker_name}: {claim_text}"
              claims_texts.append((formatted_claim, debate_id, intervention_id,
                                   full_intervention_text, speaker_name))
  \<close>
  The block for proposals is the same with \<^verbatim>\<open>proposals\<close> and \<^verbatim>\<open>proposal\<close>; one
  function, given the two tags, models both. It returns the count and the recorded texts.
\<close>

definition guarded_texts ::
  "string \<Rightarrow> string \<Rightarrow> string xml \<Rightarrow> string \<Rightarrow> string option \<Rightarrow> string \<Rightarrow> string \<Rightarrow> nat \<times> text_entry list" where
  "guarded_texts grp item intervention speaker_name i_id debate_id full_text =
     (case find_el grp intervention of
        None \<Rightarrow> (0, [])
      | Some node \<Rightarrow>
          (length (findall item node),
           concat (map (\<lambda>x. if stripped_text x \<noteq> [] \<and> truthy i_id \<and>
                                 speaker_name \<notin> set [''MODERADOR'', ''DECLARACIONES'']
                              then [(speaker_name @ '': '' @ stripped_text x, debate_id, i_id, full_text, speaker_name)]
                              else [])
                       (findall item node))))"

text \<open>
  \<^verbatim>\<open>
  fallacies_node = intervention.find("fallacies")
  ...
      for fallacy in fallacies:
          fallacy_text = fallacy.text.strip() if fallacy.text else ""
          formatted_fallacy = f'{speaker_name} ({fallacy.get("category")}): {fallacy_text}'
          fallacies_texts.append((formatted_fallacy, debate_id, intervention_id,
                                  full_intervention_text, speaker_name))
  \<close>
  No test guards the fallacies. A missing category prints as \<^verbatim>\<open>None\<close>.
\<close>

definition fallacy_texts ::
  "string xml \<Rightarrow> string \<Rightarrow> string option \<Rightarrow> string \<Rightarrow> string \<Rightarrow> nat \<times> text_entry list" where
  "fallacy_texts intervention speaker_name i_id debate_id full_text =
     (case find_el ''fallacies'' intervention of
        None \<Rightarrow> (0, [])
      | Some node \<Rightarrow>
          (length (findall ''fallacy'' node),
           map (\<lambda>fallacy.
                  (speaker_name @ '' ('' @ (case get_attr fallacy ''category'' of None \<Rightarrow> ''None'' | Some c \<Rightarrow> c)
                     @ ''): '' @ stripped_text fallacy,
                   debate_id, i_id, full_text, speaker_name))
               (findall ''fallacy'' node)))"

text \<open>
  The values \<^verbatim>\<open>process_intervention\<close> computes from the element. Line 236,
  \<^verbatim>\<open>sentences_node.findall("sentence")\<close>, raises \<^verbatim>\<open>AttributeError\<close> when the
  intervention has no \<^verbatim>\<open>sentences\<close> child.
\<close>

definition read_intervention ::
  "string xml \<Rightarrow> (string option \<rightharpoonup> string \<times> string) \<Rightarrow> string \<Rightarrow> py_error + intervention_info" where
  "read_intervention intervention participants_mapping debate_id =
     (case find_el ''sentences'' intervention of
        None \<Rightarrow> Inl AttributeError
      | Some sentences_node \<Rightarrow>
          (let i_id = get_attr intervention ''id'';
               speaker_name = speaker_name_of participants_mapping intervention;
               full_text = full_text_of (findall ''sentence'' sentences_node);
               cs = guarded_texts ''claims'' ''claim'' intervention speaker_name i_id debate_id full_text;
               ps = guarded_texts ''proposals'' ''proposal'' intervention speaker_name i_id debate_id full_text;
               fs = fallacy_texts intervention speaker_name i_id debate_id full_text
           in Inr \<lparr>intervention_id = i_id,
                   speaker_key = speaker_key_of participants_mapping intervention,
                   party_key = party_key_of participants_mapping intervention,
                   full_intervention_text = full_text,
                   num_claims = fst cs, num_proposals = fst ps, num_fallacies = fst fs,
                   info_claims_texts = snd cs, info_proposals_texts = snd ps,
                   info_fallacies_texts = snd fs\<rparr>))"

text \<open>
  \<^verbatim>\<open>
  for claim in claims_texts:
      formatted_claim, d_id, i_id, full_text, _ = claim
      speaker_metrics[speaker_key]["claims_texts"][formatted_claim] = (d_id, i_id, full_text)
  \<close>
\<close>

definition store_texts :: "text_entry list \<Rightarrow> (string \<rightharpoonup> origin) \<Rightarrow> (string \<rightharpoonup> origin)" where
  "store_texts entries m = fold (\<lambda>(formatted, d_id, i_id, full_text, _) m. m(formatted \<mapsto> (d_id, i_id, full_text))) entries m"

text \<open>The writes of \<^verbatim>\<open>process_intervention\<close> to one accumulator (lines 192 to 195 and 331
  to 351), the same for a speaker's and a party's.\<close>

definition accumulate :: "intervention_info \<Rightarrow> string \<Rightarrow> 'a metrics_scheme \<Rightarrow> 'a metrics_scheme" where
  "accumulate info debate_id a =
     a\<lparr>interventions := interventions a + 1,
       debates := insert debate_id (debates a),
       claims := claims a + num_claims info,
       proposals := proposals a + num_proposals info,
       fallacies := fallacies a + num_fallacies info,
       claims_texts := store_texts (info_claims_texts info) (claims_texts a),
       proposals_texts := store_texts (info_proposals_texts info) (proposals_texts a),
       fallacies_texts := store_texts (info_fallacies_texts info) (fallacies_texts a)\<rparr>"

text \<open>The entries created on first sight of a key (lines 139 to 188).\<close>

definition new_speaker :: "string \<Rightarrow> string \<Rightarrow> speaker_entry" where
  "new_speaker key p =
     \<lparr>interventions = 0, claims = 0, proposals = 0, fallacies = 0, claims_texts = Map.empty,
      proposals_texts = Map.empty, fallacies_texts = Map.empty, debates = {},
      full_name = key, party = p\<rparr>"

definition new_party :: party_entry where
  "new_party =
     \<lparr>interventions = 0, claims = 0, proposals = 0, fallacies = 0, claims_texts = Map.empty,
      proposals_texts = Map.empty, fallacies_texts = Map.empty, debates = {},
      participants = {}\<rparr>"

definition process_intervention ::
  "string xml \<Rightarrow> (string option \<rightharpoonup> string \<times> string) \<Rightarrow> (string \<rightharpoonup> speaker_entry) \<Rightarrow>
   (string \<rightharpoonup> party_entry) \<Rightarrow> string \<Rightarrow>
   py_error + ((string \<rightharpoonup> speaker_entry) \<times> (string \<rightharpoonup> party_entry) \<times> intervention_info)" where
  "process_intervention intervention participants_mapping speaker_metrics party_metrics debate_id =
     (case read_intervention intervention participants_mapping debate_id of
        Inl e \<Rightarrow> Inl e
      | Inr info \<Rightarrow>
          (let sp = (case speaker_metrics (speaker_key info) of
                       None \<Rightarrow> new_speaker (speaker_key info) (party_of participants_mapping intervention)
                     | Some a \<Rightarrow> a);
               pt = (case party_metrics (party_key info) of None \<Rightarrow> new_party | Some a \<Rightarrow> a)
           in Inr (speaker_metrics(speaker_key info \<mapsto> accumulate info debate_id sp),
                   party_metrics(party_key info \<mapsto>
                     accumulate info debate_id (pt\<lparr>participants := insert (speaker_key info) (participants pt)\<rparr>)),
                   info)))"

text \<open>
  The entry \<^verbatim>\<open>global_metrics["debates_info"][debate_id]\<close> written at the end of
  \<^verbatim>\<open>process_xml\<close>; a text maps to \<^verbatim>\<open>(d_id, i_id, full_text, speaker_name)\<close> there.
\<close>

type_synonym debate_origin = "string \<times> string option \<times> string \<times> string"

record debate_entry =
  d_debate_id :: string
  d_blocks :: nat
  d_interventions :: nat
  d_speakers :: "string list"
  d_claims_texts :: "string \<rightharpoonup> debate_origin"
  d_proposals_texts :: "string \<rightharpoonup> debate_origin"
  d_fallacies_texts :: "string \<rightharpoonup> debate_origin"
  d_num_claims :: nat
  d_num_proposals :: nat
  d_num_fallacies :: nat

text \<open>
  The three dictionaries \<^verbatim>\<open>main\<close> creates and passes to every call, as one state:
  the counters of \<^verbatim>\<open>global_metrics\<close> (prefixed \<open>g_\<close>), its \<^verbatim>\<open>debates_info\<close>, and
  \<^verbatim>\<open>speaker_metrics\<close> and \<^verbatim>\<open>party_metrics\<close>.
\<close>

record run_state =
  g_debates :: nat
  g_blocks :: nat
  g_interventions :: nat
  g_claims :: nat
  g_proposals :: nat
  g_fallacies :: nat
  debates_info :: "string \<rightharpoonup> debate_entry"
  speaker_metrics :: "string \<rightharpoonup> speaker_entry"
  party_metrics :: "string \<rightharpoonup> party_entry"

definition initial_state :: run_state where
  "initial_state =
     \<lparr>g_debates = 0, g_blocks = 0, g_interventions = 0, g_claims = 0, g_proposals = 0,
      g_fallacies = 0, debates_info = Map.empty, speaker_metrics = Map.empty,
      party_metrics = Map.empty\<rparr>"

text \<open>
  \<^verbatim>\<open>
  for intervention in interventions:
      intervention_info = process_intervention(intervention, participants_mapping,
                              global_metrics, speaker_metrics, party_metrics, debate_id)
      block_interventions_info.append(intervention_info)
      global_metrics["interventions"] += 1
      ...
      global_metrics["claims"] += intervention_info["num_claims"]
      global_metrics["proposals"] += intervention_info["num_proposals"]
      global_metrics["fallacies"] += intervention_info["num_fallacies"]
  \<close>
  An exception of \<^verbatim>\<open>process_intervention\<close> is caught nowhere and ends the run.
\<close>

fun process_interventions ::
  "string xml list \<Rightarrow> (string option \<rightharpoonup> string \<times> string) \<Rightarrow> string \<Rightarrow> run_state \<Rightarrow>
   py_error + (run_state \<times> intervention_info list)" where
  "process_interventions [] participants_mapping debate_id s = Inr (s, [])"
| "process_interventions (intervention # rest) participants_mapping debate_id s =
     (case process_intervention intervention participants_mapping (speaker_metrics s) (party_metrics s) debate_id of
        Inl e \<Rightarrow> Inl e
      | Inr (sm, pm, info) \<Rightarrow>
          (case process_interventions rest participants_mapping debate_id
                  (s\<lparr>speaker_metrics := sm, party_metrics := pm,
                     g_interventions := g_interventions s + 1,
                     g_claims := g_claims s + num_claims info,
                     g_proposals := g_proposals s + num_proposals info,
                     g_fallacies := g_fallacies s + num_fallacies info\<rparr>) of
             Inl e \<Rightarrow> Inl e
           | Inr (s', infos) \<Rightarrow> Inr (s', info # infos)))"

text \<open>
  \<^verbatim>\<open>
  def process_block(block, ...):
      interventions_node = block.find("interventions")
      if interventions_node is None:
          return []
      interventions = interventions_node.findall("intervention")
      ...
  \<close>
\<close>

definition process_block ::
  "string xml \<Rightarrow> (string option \<rightharpoonup> string \<times> string) \<Rightarrow> string \<Rightarrow> run_state \<Rightarrow>
   py_error + (run_state \<times> intervention_info list)" where
  "process_block block participants_mapping debate_id s =
     (case find_el ''interventions'' block of
        None \<Rightarrow> Inr (s, [])
      | Some interventions_node \<Rightarrow>
          process_interventions (findall ''intervention'' interventions_node) participants_mapping debate_id s)"

text \<open>The loop over the blocks in \<^verbatim>\<open>process_xml\<close>, extending \<^verbatim>\<open>local_interventions_info\<close>.\<close>

fun process_blocks ::
  "string xml list \<Rightarrow> (string option \<rightharpoonup> string \<times> string) \<Rightarrow> string \<Rightarrow> run_state \<Rightarrow>
   py_error + (run_state \<times> intervention_info list)" where
  "process_blocks [] participants_mapping debate_id s = Inr (s, [])"
| "process_blocks (block # rest) participants_mapping debate_id s =
     (case process_block block participants_mapping debate_id s of
        Inl e \<Rightarrow> Inl e
      | Inr (s1, infos1) \<Rightarrow>
          (case process_blocks rest participants_mapping debate_id s1 of
             Inl e \<Rightarrow> Inl e
           | Inr (s2, infos2) \<Rightarrow> Inr (s2, infos1 @ infos2)))"

text \<open>
  \<^verbatim>\<open>
  for claim_text, d_id, i_id, full_text, speaker_name in info["claims_texts"]:
      local_claims_mapping[claim_text] = (d_id, i_id, full_text, speaker_name)
  \<close>
\<close>

definition store_local :: "text_entry list \<Rightarrow> (string \<rightharpoonup> debate_origin) \<Rightarrow> (string \<rightharpoonup> debate_origin)" where
  "store_local entries m = fold (\<lambda>(formatted, origin) m. m(formatted \<mapsto> origin)) entries m"

text \<open>
  \<^verbatim>\<open>process_xml(file_path, global_metrics, speaker_metrics, party_metrics)\<close>. A file
  is given by its base name and its parsed root, \<open>None\<close> when \<^verbatim>\<open>ET.parse\<close> raises (the
  function then returns without a change).
  \<^verbatim>\<open>
  global_metrics["debates"] += 1
  debate_id = root.get("date", os.path.basename(file_path))
  participants_mapping = parse_participants(root.find("participants"))
  blocks = root.findall("blocks/block")
  global_metrics["blocks"] += len(blocks)
  ...
  global_metrics.setdefault("debates_info", {})[debate_id] = {...}
  \<close>
\<close>

definition debate_id_of :: "string \<Rightarrow> string xml \<Rightarrow> string" where
  "debate_id_of file_name tree = get_attr_default tree ''date'' file_name"

definition blocks_of :: "string xml \<Rightarrow> string xml list" where
  "blocks_of tree = concat (map (findall ''block'') (findall ''blocks'' tree))"

definition process_xml :: "string \<times> string xml option \<Rightarrow> run_state \<Rightarrow> py_error + run_state" where
  "process_xml file s =
     (case snd file of
        None \<Rightarrow> Inr s
      | Some tree \<Rightarrow>
          (let debate_id = debate_id_of (fst file) tree;
               participants_mapping = parse_participants (find_el ''participants'' tree);
               blocks = blocks_of tree
           in case process_blocks blocks participants_mapping debate_id
                     (s\<lparr>g_debates := g_debates s + 1, g_blocks := g_blocks s + length blocks\<rparr>) of
                Inl e \<Rightarrow> Inl e
              | Inr (s', infos) \<Rightarrow>
                  Inr (s'\<lparr>debates_info := (debates_info s')(debate_id \<mapsto>
                        \<lparr>d_debate_id = debate_id,
                         d_blocks = length blocks,
                         d_interventions = length infos,
                         d_speakers = sorted_list_of_set (set (map speaker_key infos)),
                         d_claims_texts = store_local (concat (map info_claims_texts infos)) Map.empty,
                         d_proposals_texts = store_local (concat (map info_proposals_texts infos)) Map.empty,
                         d_fallacies_texts = store_local (concat (map info_fallacies_texts infos)) Map.empty,
                         d_num_claims = sum_list (map num_claims infos),
                         d_num_proposals = sum_list (map num_proposals infos),
                         d_num_fallacies = sum_list (map num_fallacies infos)\<rparr>)\<rparr>)))"

text \<open>The loop of \<^verbatim>\<open>main\<close> over the files found, from the dictionaries it creates.\<close>

fun process_files :: "(string \<times> string xml option) list \<Rightarrow> run_state \<Rightarrow> py_error + run_state" where
  "process_files [] s = Inr s"
| "process_files (file # rest) s =
     (case process_xml file s of Inl e \<Rightarrow> Inl e | Inr s' \<Rightarrow> process_files rest s')"

definition main :: "(string \<times> string xml option) list \<Rightarrow> py_error + run_state" where
  "main files = process_files files initial_state"

text \<open>
  Views for stating the totals: a count read from a dictionary that may lack the key
  (nothing was counted there), and the (speaker key, party key) pairs of the
  interventions a run visits, in the order it visits them.
\<close>

definition speaker_interventions :: "run_state \<Rightarrow> string \<Rightarrow> nat" where
  "speaker_interventions s k = (case speaker_metrics s k of None \<Rightarrow> 0 | Some a \<Rightarrow> interventions a)"

definition party_interventions :: "run_state \<Rightarrow> string \<Rightarrow> nat" where
  "party_interventions s k = (case party_metrics s k of None \<Rightarrow> 0 | Some a \<Rightarrow> interventions a)"

definition party_participants :: "run_state \<Rightarrow> string \<Rightarrow> string set" where
  "party_participants s k = (case party_metrics s k of None \<Rightarrow> {} | Some a \<Rightarrow> participants a)"

definition debate_interventions :: "run_state \<Rightarrow> string \<Rightarrow> nat" where
  "debate_interventions s d = (case debates_info s d of None \<Rightarrow> 0 | Some e \<Rightarrow> d_interventions e)"

definition block_interventions :: "string xml \<Rightarrow> string xml list" where
  "block_interventions block =
     (case find_el ''interventions'' block of None \<Rightarrow> [] | Some node \<Rightarrow> findall ''intervention'' node)"

definition file_keys :: "string \<times> string xml option \<Rightarrow> (string \<times> string) list" where
  "file_keys file =
     (case snd file of
        None \<Rightarrow> []
      | Some tree \<Rightarrow>
          map (\<lambda>i. (speaker_key_of (parse_participants (find_el ''participants'' tree)) i,
                    party_key_of (parse_participants (find_el ''participants'' tree)) i))
              (concat (map block_interventions (blocks_of tree))))"

definition file_ids :: "(string \<times> string xml option) list \<Rightarrow> string list" where
  "file_ids files = concat (map (\<lambda>file. case snd file of None \<Rightarrow> [] | Some tree \<Rightarrow> [debate_id_of (fst file) tree]) files)"

definition one_party_per_speaker :: "(string \<times> string) list \<Rightarrow> bool" where
  "one_party_per_speaker ks = (\<forall>x \<in> set ks. \<forall>y \<in> set ks. fst x = fst y \<longrightarrow> snd x = snd y)"

text \<open>A count and a text map read from a dictionary of accumulators; for a key the
  dictionary lacks, nothing was counted or stored.\<close>

definition count_of :: "('a \<Rightarrow> nat) \<Rightarrow> (string \<rightharpoonup> 'a) \<Rightarrow> string \<Rightarrow> nat" where
  "count_of field m k = (case m k of None \<Rightarrow> 0 | Some a \<Rightarrow> field a)"

definition texts_of :: "('a \<Rightarrow> (string \<rightharpoonup> origin)) \<Rightarrow> (string \<rightharpoonup> 'a) \<Rightarrow> string \<Rightarrow> (string \<rightharpoonup> origin)" where
  "texts_of field m k = (case m k of None \<Rightarrow> Map.empty | Some a \<Rightarrow> field a)"


text \<open>
  The invariant behind the totals per party, for a function \<open>f\<close> that gives the party
  key of every speaker key met so far: the sets of participants are finite, a speaker is
  a participant only of the party \<open>f\<close> gives, every speaker with an intervention is a
  participant of that party, and the counts of a party's participants add up to the
  party's count.
\<close>

definition totals_agree ::
  "(string \<Rightarrow> string) \<Rightarrow> (string \<Rightarrow> nat) \<Rightarrow> (string \<Rightarrow> nat) \<Rightarrow> (string \<Rightarrow> string set) \<Rightarrow> bool" where
  "totals_agree f cs cp P \<longleftrightarrow>
     (\<forall>p. finite (P p)) \<and> (\<forall>k p. k \<in> P p \<longrightarrow> f k = p) \<and>
     (\<forall>k. 0 < cs k \<longrightarrow> k \<in> P (f k)) \<and> (\<forall>p. sum cs (P p) = cp p)"

definition party_consistent :: "(string \<Rightarrow> string) \<Rightarrow> run_state \<Rightarrow> bool" where
  "party_consistent f s =
     totals_agree f (speaker_interventions s) (party_interventions s) (party_participants s)"

section \<open>Properties of the temporal assignment\<close>

lemma assign_topic_eq: "assign_topic t bs = assign_block t bs"
  by (induction t bs rule: assign_block.induct) auto

lemma assign_block_index:
  "sorted (map snd (b # bs)) \<Longrightarrow> snd b \<le> t \<Longrightarrow>
   \<exists>i<length (b # bs). assign_block t (b # bs) = Some (fst ((b # bs) ! i)) \<and>
      snd ((b # bs) ! i) \<le> t \<and> (Suc i < length (b # bs) \<longrightarrow> t < snd ((b # bs) ! Suc i))"
proof (induction t "b # bs" arbitrary: b bs rule: assign_block.induct)
  case (2 t b)
  then show ?case by simp
next
  case (3 t b c bs)
  show ?case
  proof (cases "t < snd c")
    case True
    then show ?thesis using "3.prems"(2) by (intro exI[of _ 0]) simp
  next
    case False
    then have c: "snd c \<le> t" by simp
    have "sorted (map snd (c # bs))" using "3.prems"(1) by simp
    from "3.hyps"[OF _ this c] False obtain i where i: "i < length (c # bs)"
      "assign_block t (c # bs) = Some (fst ((c # bs) ! i))" "snd ((c # bs) ! i) \<le> t"
      "Suc i < length (c # bs) \<longrightarrow> t < snd ((c # bs) ! Suc i)"
      by blast
    show ?thesis using i False by (intro exI[of _ "Suc i"]) simp
  qed
qed

lemma assign_block_before_first:
  "sorted (map snd (b # bs)) \<Longrightarrow> t < snd b \<Longrightarrow> assign_block t (b # bs) = Some (fst (last (b # bs)))"
proof (induction t "b # bs" arbitrary: b bs rule: assign_block.induct)
  case (2 t b)
  then show ?case by simp
next
  case (3 t b c bs)
  have "t < snd c" using "3.prems" by simp
  then show ?case using "3.hyps" "3.prems" by simp
qed

text \<open>
  Claim C1. For a non-empty list of (label, start) pairs sorted ascending by start and a
  query time \<open>t\<close> not before the first start, \<open>assign_block\<close> (and \<open>assign_topic\<close>
  alike) returns the label at the greatest index \<open>i\<close> whose start is at most \<open>t\<close>: its
  start is the greatest start at most \<open>t\<close>, and \<open>t\<close> lies in the half-open interval up
  to the next start, the last interval being unbounded above. For the blocks Economy at
  0 and Health at 120, the times 119.9, 120 and 500 give Economy, Health and Health.
\<close>

theorem assign_block_greatest_start:
  "(blocks \<noteq> [] \<and> sorted (map snd blocks) \<and> snd (hd blocks) \<le> t \<longrightarrow>
     (\<exists>i<length blocks.
        assign_block t blocks = Some (fst (blocks ! i)) \<and>
        assign_topic t blocks = Some (fst (blocks ! i)) \<and>
        snd (blocks ! i) \<le> t \<and>
        (Suc i < length blocks \<longrightarrow> t < snd (blocks ! Suc i)) \<and>
        (\<forall>j<length blocks. snd (blocks ! j) \<le> t \<longrightarrow> j \<le> i \<and> snd (blocks ! j) \<le> snd (blocks ! i)))) \<and>
   assign_block 119.9 [(''Economy'', 0), (''Health'', 120)] = Some ''Economy'' \<and>
   assign_block 120 [(''Economy'', 0), (''Health'', 120)] = Some ''Health'' \<and>
   assign_block 500 [(''Economy'', 0), (''Health'', 120)] = Some ''Health''"
proof -
  have general: "\<exists>i<length blocks.
        assign_block t blocks = Some (fst (blocks ! i)) \<and>
        assign_topic t blocks = Some (fst (blocks ! i)) \<and>
        snd (blocks ! i) \<le> t \<and>
        (Suc i < length blocks \<longrightarrow> t < snd (blocks ! Suc i)) \<and>
        (\<forall>j<length blocks. snd (blocks ! j) \<le> t \<longrightarrow> j \<le> i \<and> snd (blocks ! j) \<le> snd (blocks ! i))"
    if ne: "blocks \<noteq> []" and srt: "sorted (map snd blocks)" and first: "snd (hd blocks) \<le> t"
  proof -
    from ne obtain b bs where blocks: "blocks = b # bs" by (cases blocks) auto
    from assign_block_index[of b bs t] srt first blocks
    obtain i where i: "i < length blocks" "assign_block t blocks = Some (fst (blocks ! i))"
      "snd (blocks ! i) \<le> t" "Suc i < length blocks \<longrightarrow> t < snd (blocks ! Suc i)"
      by auto
    have mono: "snd (blocks ! j) \<le> snd (blocks ! k)" if "j \<le> k" "k < length blocks" for j k
      using sorted_nth_mono[OF srt, of j k] that by simp
    have "j \<le> i \<and> snd (blocks ! j) \<le> snd (blocks ! i)"
      if j: "j < length blocks" "snd (blocks ! j) \<le> t" for j
    proof -
      have "j \<le> i"
      proof (rule ccontr)
        assume "\<not> j \<le> i"
        then have "Suc i \<le> j" by simp
        with j(1) have "Suc i < length blocks" and "snd (blocks ! Suc i) \<le> snd (blocks ! j)"
          using mono[of "Suc i" j] by auto
        with i(4) j(2) show False by simp
      qed
      with mono[of j i] i(1) show ?thesis by simp
    qed
    with i show ?thesis by (auto simp: assign_topic_eq)
  qed
  show ?thesis using general by simp
qed

theorem assign_block_greatest_start_witness:
  "[(''Economy'', 0), (''Health'', 120), (''Closing'', 300 :: time)] \<noteq> [] \<and>
   sorted (map snd [(''Economy'', 0), (''Health'', 120), (''Closing'', 300 :: time)]) \<and>
   snd (hd [(''Economy'', 0), (''Health'', 120), (''Closing'', 300 :: time)]) \<le> 120 \<and>
   (\<exists>i<length [(''Economy'', 0), (''Health'', 120), (''Closing'', 300 :: time)].
      assign_block 120 [(''Economy'', 0), (''Health'', 120), (''Closing'', 300)]
        = Some (fst ([(''Economy'', 0), (''Health'', 120), (''Closing'', 300 :: time)] ! i)) \<and>
      snd ([(''Economy'', 0), (''Health'', 120), (''Closing'', 300 :: time)] ! i) \<le> 120) \<and>
   assign_block 120 [(''Economy'', 0), (''Health'', 120), (''Closing'', 300)] = Some ''Health''"
proof -
  have h: "[(''Economy'', 0), (''Health'', 120), (''Closing'', 300 :: time)] \<noteq> [] \<and>
   sorted (map snd [(''Economy'', 0), (''Health'', 120), (''Closing'', 300 :: time)]) \<and>
   snd (hd [(''Economy'', 0), (''Health'', 120), (''Closing'', 300 :: time)]) \<le> 120"
    by simp
  from assign_block_greatest_start[of "[(''Economy'', 0), (''Health'', 120), (''Closing'', 300)]" 120,
      THEN conjunct1, rule_format, OF h]
  have e: "\<exists>i<length [(''Economy'', 0), (''Health'', 120), (''Closing'', 300 :: time)].
      assign_block 120 [(''Economy'', 0), (''Health'', 120), (''Closing'', 300)]
        = Some (fst ([(''Economy'', 0), (''Health'', 120), (''Closing'', 300 :: time)] ! i)) \<and>
      snd ([(''Economy'', 0), (''Health'', 120), (''Closing'', 300 :: time)] ! i) \<le> 120"
    by blast
  have v: "assign_block 120 [(''Economy'', 0), (''Health'', 120), (''Closing'', 300)] = Some ''Health''"
    by simp
  from h e v show ?thesis by (intro conjI) (simp_all only: simp_thms)
qed

subsection \<open>Exact-timestamp lookups\<close>




lemma find_time_None: "List.find (\<lambda>e. fst e = t) xs = None \<longleftrightarrow> t \<notin> fst ` set xs"
  by (force simp: find_None_iff)

lemma find_time_Some: "List.find (\<lambda>e. fst e = t) xs = Some e \<Longrightarrow> fst e = t \<and> e \<in> set xs"
  by (auto simp: find_Some_iff)



section \<open>Properties of the document assembly\<close>

lemma entidades_asignadas_props:
  "sorted_wrt (\<lambda>a b. fst a < fst b \<or> (fst a = fst b \<and> snd a < snd b)) (entidades_asignadas t entities) \<and>
   distinct (entidades_asignadas t entities) \<and>
   set (entidades_asignadas t entities) = set (assign_entities t entities)"
proof -
  let ?A = "set (assign_entities t entities)"
  have "sorted_wrt (<) (sorted_list_of_set ?A)"
    by (rule strict_sorted_list_of_set)
  then have "sorted_wrt (\<lambda>a b. fst a < fst b \<or> (fst a = fst b \<and> snd a < snd b)) (sorted_list_of_set ?A)"
    by (rule sorted_wrt_mono_rel[rotated]) (simp add: less_prod_def')
  then show ?thesis by (simp add: entidades_asignadas_def)
qed

lemma find_el_mentions_element:
  "find_el ''mentions'' (Element t a x (mentions_element es @ items_element ''proposals'' ''proposal'' ''pr'' ps
      @ items_element ''claims'' ''claim'' ''r'' fs @ [Element ''linguistic-stats'' st None [], sentences_element txt]))
   = (case mentions_element es of [] \<Rightarrow> None | m # _ \<Rightarrow> Some m)"
  by (auto simp: find_el_def mentions_element_def items_element_def sentences_element_def split: option.splits)

lemma mention_triples_enumerate:
  "map mention_triple (filter (\<lambda>c. tag c = ''mention'')
      (map (\<lambda>(entidad_id, (type, nombre)).
                   Element ''mention''
                     [(''id'', Some (''e'' @ str_nat entidad_id)), (''type'', Some type),
                      (''text'', Some nombre)] None []) xs))
   = map (\<lambda>(k, (ty, nm)). (Some (''e'' @ str_nat k), Some ty, Some nm)) xs"
  by (induction xs) (auto simp: mention_triple_def get_attr_mem_def)

lemma intervention_mentions_make:
  assumes "make_intervention blocks topics entities proposal_list fact_checking participants_dict n r = Inr (Some (b, i))"
  shows "intervention_mentions i =
     map (\<lambda>(k, (ty, nm)). (Some (''e'' @ str_nat k), Some ty, Some nm))
       (List.enumerate 0 (entidades_asignadas (inicio r) entities))"
proof -
  from assms obtain pid where
    i: "i = Element ''intervention''
                    [(''id'', Some (''i'' @ format_03d n)), (''participant-id'', Some pid),
                     (''topic'', assign_topic (inicio r) topics)] None
                    (mentions_element (entidades_asignadas (inicio r) entities)
                     @ items_element ''proposals'' ''proposal'' ''pr'' (assign_proposals (inicio r) proposal_list)
                     @ items_element ''claims'' ''claim'' ''r'' (assign_fact_checking (inicio r) fact_checking)
                     @ [Element ''linguistic-stats'' (map (\<lambda>(k, v). (k, Some v)) (stats r)) None [],
                        sentences_element (texto r)])"
    by (auto simp: make_intervention_def Let_def split: if_splits option.splits)
  show ?thesis
    unfolding intervention_mentions_def i find_el_mentions_element
    using mention_triples_enumerate[of "List.enumerate 0 (entidades_asignadas (inicio r) entities)"]
    by (simp add: mentions_element_def findall_def)
qed

text \<open>
  Claim C8. Within one assembled intervention the mentions found at its timestamp are
  the set of (type, text) pairs of the entity list (no duplicates), sorted
  lexicographically by type and then text, and numbered e0, e1, ... in that order. For
  the entity list PER Ana, PER Ana, ORG X at the row's time the intervention has exactly
  the two mentions e0 = ORG X and e1 = PER Ana.
\<close>

theorem mentions_dedup_sorted_numbered:
  "sorted_wrt (\<lambda>a b. fst a < fst b \<or> (fst a = fst b \<and> snd a < snd b)) (entidades_asignadas t entities) \<and>
   distinct (entidades_asignadas t entities) \<and>
   set (entidades_asignadas t entities) = set (assign_entities t entities) \<and>
   (make_intervention blocks topics entities proposal_list fact_checking participants_dict n r = Inr (Some (b, i)) \<longrightarrow>
      intervention_mentions i =
        map (\<lambda>(k, (ty, nm)). (Some (''e'' @ str_nat k), Some ty, Some nm))
          (List.enumerate 0 (entidades_asignadas (inicio r) entities))) \<and>
   assembled_mentions [(''Economy'', 0), (''Health'', 120)] []
       [(5, [(''PER'', ''Ana''), (''PER'', ''Ana''), (''ORG'', ''X'')])] [] [] [''Ana'' \<mapsto> ''p0''] 0
       \<lparr>inicio = 5, nombre = ''Ana'', texto = ''Hola. Que tal'', stats = [(''ttr'', ''0.5'')]\<rparr>
     = Some [(Some ''e0'', Some ''ORG'', Some ''X''), (Some ''e1'', Some ''PER'', Some ''Ana'')]"
proof -
  have ex: "assembled_mentions [(''Economy'', 0), (''Health'', 120)] []
       [(5, [(''PER'', ''Ana''), (''PER'', ''Ana''), (''ORG'', ''X'')])] [] [] [''Ana'' \<mapsto> ''p0''] 0
       \<lparr>inicio = 5, nombre = ''Ana'', texto = ''Hola. Que tal'', stats = [(''ttr'', ''0.5'')]\<rparr>
     = Some [(Some ''e0'', Some ''ORG'', Some ''X''), (Some ''e1'', Some ''PER'', Some ''Ana'')]"
    by code_simp
  show ?thesis
    using entidades_asignadas_props[of t entities] intervention_mentions_make ex by blast
qed

theorem mentions_dedup_sorted_numbered_witness:
  "make_intervention [(''Economy'', 0), (''Health'', 120)] []
       [(5, [(''PER'', ''Ana''), (''ORG'', ''X''), (''PER'', ''Ana''), (''ORG'', ''A'')])] [] [] [''Ana'' \<mapsto> ''p0''] 0
       \<lparr>inicio = 5, nombre = ''Ana'', texto = ''Hola'', stats = []\<rparr>
     = Inr (Some (''Economy'',
         Element ''intervention'' [(''id'', Some ''i000''), (''participant-id'', Some ''p0''), (''topic'', None)] None
           [Element ''mentions'' [] None
              [Element ''mention'' [(''id'', Some ''e0''), (''type'', Some ''ORG''), (''text'', Some ''A'')] None [],
               Element ''mention'' [(''id'', Some ''e1''), (''type'', Some ''ORG''), (''text'', Some ''X'')] None [],
               Element ''mention'' [(''id'', Some ''e2''), (''type'', Some ''PER''), (''text'', Some ''Ana'')] None []],
            Element ''linguistic-stats'' [] None [],
            Element ''sentences'' [] None [Element ''sentence'' [(''id'', Some ''s0'')] (Some ''Hola'') []]])) \<and>
   intervention_mentions
     (Element ''intervention'' [(''id'', Some ''i000''), (''participant-id'', Some ''p0''), (''topic'', None)] None
           [Element ''mentions'' [] None
              [Element ''mention'' [(''id'', Some ''e0''), (''type'', Some ''ORG''), (''text'', Some ''A'')] None [],
               Element ''mention'' [(''id'', Some ''e1''), (''type'', Some ''ORG''), (''text'', Some ''X'')] None [],
               Element ''mention'' [(''id'', Some ''e2''), (''type'', Some ''PER''), (''text'', Some ''Ana'')] None []],
            Element ''linguistic-stats'' [] None [],
            Element ''sentences'' [] None [Element ''sentence'' [(''id'', Some ''s0'')] (Some ''Hola'') []]])
    = map (\<lambda>(k, (ty, nm)). (Some (''e'' @ str_nat k), Some ty, Some nm))
          (List.enumerate 0 (entidades_asignadas 5
             [(5, [(''PER'', ''Ana''), (''ORG'', ''X''), (''PER'', ''Ana''), (''ORG'', ''A'')])]))"
proof -
  have m: "make_intervention [(''Economy'', 0), (''Health'', 120)] []
       [(5, [(''PER'', ''Ana''), (''ORG'', ''X''), (''PER'', ''Ana''), (''ORG'', ''A'')])] [] [] [''Ana'' \<mapsto> ''p0''] 0
       \<lparr>inicio = 5, nombre = ''Ana'', texto = ''Hola'', stats = []\<rparr>
     = Inr (Some (''Economy'',
         Element ''intervention'' [(''id'', Some ''i000''), (''participant-id'', Some ''p0''), (''topic'', None)] None
           [Element ''mentions'' [] None
              [Element ''mention'' [(''id'', Some ''e0''), (''type'', Some ''ORG''), (''text'', Some ''A'')] None [],
               Element ''mention'' [(''id'', Some ''e1''), (''type'', Some ''ORG''), (''text'', Some ''X'')] None [],
               Element ''mention'' [(''id'', Some ''e2''), (''type'', Some ''PER''), (''text'', Some ''Ana'')] None []],
            Element ''linguistic-stats'' [] None [],
            Element ''sentences'' [] None [Element ''sentence'' [(''id'', Some ''s0'')] (Some ''Hola'') []]]))"
    by code_simp
  from mentions_dedup_sorted_numbered[THEN conjunct2, THEN conjunct2, THEN conjunct2, THEN conjunct1,
      rule_format, OF m]
  show ?thesis using m by simp
qed

subsection \<open>Turns before the first block\<close>

text \<open>
  Claim C10, as amended. For a non-empty sorted list of blocks (or topics) and a time
  strictly before the first start, \<open>assign_block\<close> and \<open>assign_topic\<close> return the
  label of the last entry, never \<open>None\<close>; a row of a registered speaker at such a time
  is appended under the last block's label when that label is not the empty string, and
  leaves no intervention when it is.
\<close>

theorem assign_block_before_first_is_last:
  "blocks \<noteq> [] \<and> sorted (map snd blocks) \<and> t < snd (hd blocks) \<longrightarrow>
     assign_block t blocks = Some (fst (last blocks)) \<and>
     assign_topic t blocks = Some (fst (last blocks)) \<and>
     (inicio r = t \<and> participants_dict (nombre r) \<noteq> None \<longrightarrow>
        assembled_block blocks topics entities proposal_list fact_checking participants_dict n r
          = (if fst (last blocks) = [] then None else Some (fst (last blocks))))"
proof (intro impI, elim conjE)
  assume ne: "blocks \<noteq> []" and srt: "sorted (map snd blocks)" and lt: "t < snd (hd blocks)"
  from ne obtain b bs where blocks: "blocks = b # bs" by (cases blocks) auto
  have ab: "assign_block t blocks = Some (fst (last blocks))"
    using assign_block_before_first[of b bs t] srt lt unfolding blocks by simp
  have "assembled_block blocks topics entities proposal_list fact_checking participants_dict n r
          = (if fst (last blocks) = [] then None else Some (fst (last blocks)))"
    if "inicio r = t" "participants_dict (nombre r) \<noteq> None"
    using that ab by (auto simp: assembled_block_def make_intervention_def truthy_def Let_def)
  then show "assign_block t blocks = Some (fst (last blocks)) \<and>
     assign_topic t blocks = Some (fst (last blocks)) \<and>
     (inicio r = t \<and> participants_dict (nombre r) \<noteq> None \<longrightarrow>
        assembled_block blocks topics entities proposal_list fact_checking participants_dict n r
          = (if fst (last blocks) = [] then None else Some (fst (last blocks))))"
    using ab by (simp add: assign_topic_eq)
qed

theorem assign_block_before_first_is_last_witness:
  "[(''Economy'', 10), (''Health'', 120 :: time)] \<noteq> [] \<and>
   sorted (map snd [(''Economy'', 10), (''Health'', 120 :: time)]) \<and>
   (5 :: time) < snd (hd [(''Economy'', 10), (''Health'', 120 :: time)]) \<and>
   [''Ana'' \<mapsto> ''p0''] ''Ana'' \<noteq> None \<and>
   assign_block 5 [(''Economy'', 10), (''Health'', 120)] = Some ''Health'' \<and>
   assign_topic 5 [(''Economy'', 10), (''Health'', 120)] = Some ''Health'' \<and>
   assembled_block [(''Economy'', 10), (''Health'', 120)] [] [] [] [] [''Ana'' \<mapsto> ''p0''] 0
      \<lparr>inicio = 5, nombre = ''Ana'', texto = ''Hola. Que tal'', stats = []\<rparr> = Some ''Health''"
  using assign_block_before_first_is_last[of "[(''Economy'', 10), (''Health'', 120)]" 5
      "\<lparr>inicio = 5, nombre = ''Ana'', texto = ''Hola. Que tal'', stats = []\<rparr>"
      "[''Ana'' \<mapsto> ''p0'']" "[]" "[]" "[]" "[]" 0]
  by simp

theorem turn_before_first_block_dropped_counterexample:
  "[(''Economy'', 10), ([], 20 :: time)] \<noteq> [] \<and>
   sorted (map snd [(''Economy'', 10), ([], 20 :: time)]) \<and>
   (5 :: time) < snd (hd [(''Economy'', 10), ([], 20 :: time)]) \<and>
   make_intervention [(''Economy'', 10), ([], 20)] [] [] [] [] [''Ana'' \<mapsto> ''p0''] 0
      \<lparr>inicio = 5, nombre = ''Ana'', texto = ''Hola. Que tal'', stats = []\<rparr> = Inr None"
  by (simp add: make_intervention_def truthy_def)

section \<open>Properties of the merge-back\<close>

subsection \<open>The first-match update\<close>

lemma update_first_split:
  "update_first P f xs =
     takeWhile (\<lambda>x. \<not> P x) xs @ (case dropWhile (\<lambda>x. \<not> P x) xs of [] \<Rightarrow> [] | y # ys \<Rightarrow> f y # ys)"
  by (induction xs) auto

lemma length_update_first [simp]: "length (update_first P f xs) = length xs"
  by (induction xs) auto

lemma update_first_absorb:
  assumes "\<And>x. P (f x) = P x" and "\<And>x. g (f x) = g x"
  shows "update_first P g (update_first P f xs) = update_first P g xs"
  using assms by (induction xs) auto

lemma update_first_commute:
  assumes "\<And>x. P x \<Longrightarrow> \<not> Q x" and "\<And>x. P (g x) = P x" and "\<And>x. Q (f x) = Q x"
  shows "update_first P f (update_first Q g xs) = update_first Q g (update_first P f xs)"
  using assms by (induction xs) auto


subsection \<open>Elements under the update\<close>

lemma set_attr_sel [simp]:
  "tag (set_attr k v e) = tag e" "text_of (set_attr k v e) = text_of e"
  "children (set_attr k v e) = children e" "attrib (set_attr k v e) = AList.update k v (attrib e)"
  by (simp_all add: set_attr_def)

lemma set_attr_twice [simp]: "set_attr k v (set_attr k w e) = set_attr k v e"
  by (simp add: set_attr_def)

lemma is_sentence_set_emotions [simp]:
  "is_sentence sid (set_attr ''emotions'' v s) = is_sentence sid s"
  by (simp add: is_sentence_def get_attr_mem_def update_conv')

lemma tag_sentence_sel [simp]:
  "tag (tag_sentence sid v i) = tag i" "attrib (tag_sentence sid v i) = attrib i"
  "text_of (tag_sentence sid v i) = text_of i"
  by (simp_all add: tag_sentence_def)

lemma is_intervention_tag_sentence [simp]:
  "is_intervention iid (tag_sentence sid v i) = is_intervention iid i"
  by (simp add: is_intervention_def get_attr_mem_def)

lemma tag_sentence_absorb: "tag_sentence sid v (tag_sentence sid w i) = tag_sentence sid v i"
  by (simp add: tag_sentence_def update_first_absorb)

lemma tag_sentence_commute:
  "sid \<noteq> sid' \<Longrightarrow>
   tag_sentence sid v (tag_sentence sid' w i) = tag_sentence sid' w (tag_sentence sid v i)"
proof -
  assume ne: "sid \<noteq> sid'"
  have "update_first (is_sentence sid) (set_attr ''emotions'' v)
          (update_first (is_sentence sid') (set_attr ''emotions'' w) (children i)) =
        update_first (is_sentence sid') (set_attr ''emotions'' w)
          (update_first (is_sentence sid) (set_attr ''emotions'' v) (children i))"
  proof (rule update_first_commute)
    show "\<not> is_sentence sid' x" if "is_sentence sid x" for x
      using that ne by (auto simp: is_sentence_def)
  qed simp_all
  then show ?thesis by (simp add: tag_sentence_def)
qed

subsection \<open>Merging lines\<close>

lemma merge_line_same_key:
  assumes "line_key e = line_key e'"
  shows "merge_line (Some e') (merge_line (Some e) r) = merge_line (Some e') r"
  using assms
  by (simp add: merge_line_def line_key_def Let_def tag_sentence_absorb o_def cong: if_cong)

lemma merge_line_commute:
  assumes "line_key e \<noteq> line_key e'"
  shows "merge_line (Some e') (merge_line (Some e) r) = merge_line (Some e) (merge_line (Some e') r)"
proof (cases "get_attr e ''int_id'' = get_attr e' ''int_id''")
  case True
  with assms have "get_attr e ''sent_id'' \<noteq> get_attr e' ''sent_id''"
    by (simp add: line_key_def)
  from tag_sentence_commute[OF this] True show ?thesis
    by (simp add: merge_line_def Let_def o_def cong: if_cong)
next
  case False
  then have "\<not> (is_intervention (get_attr e ''int_id'') i \<and> is_intervention (get_attr e' ''int_id'') i)" for i
    by (auto simp: is_intervention_def)
  then show ?thesis
    by (auto simp: merge_line_def Let_def o_def)
qed

lemma merge_back_Cons [simp]: "merge_back (l # ls) r = merge_back ls (merge_line l r)"
  by (simp add: merge_back_def)

lemma merge_back_Nil [simp]: "merge_back [] r = r"
  by (simp add: merge_back_def)

lemma merge_back_append [simp]: "merge_back (ls @ ms) r = merge_back ms (merge_back ls r)"
  by (simp add: merge_back_def)

lemma merge_line_None [simp]: "merge_line None r = r"
  by (simp add: merge_line_def)

text \<open>A line merged before a batch that holds the same line again leaves no trace.\<close>

lemma merge_back_absorbs_line:
  "l \<in> set ls \<Longrightarrow> merge_back ls (merge_line l r) = merge_back ls r"
proof (induction ls arbitrary: r)
  case Nil
  then show ?case by simp
next
  case (Cons m ls)
  show ?case
  proof (cases l)
    case None
    then show ?thesis by simp
  next
    case l: (Some e)
    show ?thesis
    proof (cases m)
      case None
      with Cons l show ?thesis by auto
    next
      case m: (Some e')
      show ?thesis
      proof (cases "line_key e = line_key e'")
        case True
        then show ?thesis by (simp add: l m merge_line_same_key)
      next
        case False
        then have "l \<in> set ls" using Cons.prems l m by auto
        from Cons.IH[OF this] merge_line_commute[OF False] show ?thesis
          by (simp add: l m)
      qed
    qed
  qed
qed

lemma merge_back_absorbs_batch:
  "set ms \<subseteq> set ls \<Longrightarrow> merge_back ls (merge_back ms r) = merge_back ls r"
proof (induction ms arbitrary: r rule: rev_induct)
  case Nil
  then show ?case by simp
next
  case (snoc m ms)
  then show ?case by (simp add: merge_back_absorbs_line)
qed

text \<open>
  Claim C5. The merge-back step is idempotent: merging the same batch of lines twice
  gives the same tree as merging it once, for every tree and every batch (the second
  pass stores the same value in the emotions attribute of every sentence it reaches).
\<close>

theorem merge_back_idempotent:
  "merge_back lines (merge_back lines tree) = merge_back lines tree"
  by (rule merge_back_absorbs_batch) simp

theorem merge_back_idempotent_witness:
  "merge_back
     [Some (Element ''e'' [(''int_id'', ''i000''), (''sent_id'', ''s1''), (''tags'', ''joy'')] None []), None,
      Some (Element ''e'' [(''int_id'', ''i000''), (''sent_id'', ''s1''), (''tags'', ''fear'')] None [])]
     (merge_back
        [Some (Element ''e'' [(''int_id'', ''i000''), (''sent_id'', ''s1''), (''tags'', ''joy'')] None []), None,
         Some (Element ''e'' [(''int_id'', ''i000''), (''sent_id'', ''s1''), (''tags'', ''fear'')] None [])]
        (Element ''debate'' [] None
          [Element ''intervention'' [(''id'', Some ''i000'')] None
            [Element ''sentence'' [(''id'', Some ''s0'')] (Some ''Hola'') [],
             Element ''sentence'' [(''id'', Some ''s1'')] (Some ''Que tal'') []]]))
   = Element ''debate'' [] None
          [Element ''intervention'' [(''id'', Some ''i000'')] None
            [Element ''sentence'' [(''id'', Some ''s0'')] (Some ''Hola'') [],
             Element ''sentence'' [(''id'', Some ''s1''), (''emotions'', Some ''fear'')] (Some ''Que tal'') []]]"
  unfolding merge_back_idempotent
  by (simp add: merge_back_def merge_line_def get_attr_def is_intervention_def get_attr_mem_def
      tag_sentence_def is_sentence_def set_attr_def)

subsection \<open>First match within an intervention\<close>

text \<open>
  Claim C6, as amended. For a record (int\_id, sent\_id, tags) the merge visits the
  intervention children of the tree in document order and, in every intervention whose
  id equals int\_id, sets the emotions attribute of the first sentence child whose id
  equals sent\_id and of no other sentence of that intervention: the sentences before
  it and all sentences after it, also those with the same id, stay as they are.
  Interventions with another id are not changed. The scan does not stop after the
  first intervention that matches.
\<close>

theorem merge_line_first_sentence_per_intervention:
  "tag (merge_line (Some e) tree) = tag tree \<and>
   attrib (merge_line (Some e) tree) = attrib tree \<and>
   text_of (merge_line (Some e) tree) = text_of tree \<and>
   children (merge_line (Some e) tree) =
     map (\<lambda>i. if is_intervention (get_attr e ''int_id'') i
              then tag_sentence (get_attr e ''sent_id'') (get_attr e ''tags'') i else i)
         (children tree) \<and>
   tag (tag_sentence sid tags i) = tag i \<and>
   attrib (tag_sentence sid tags i) = attrib i \<and>
   text_of (tag_sentence sid tags i) = text_of i \<and>
   children (tag_sentence sid tags i) =
     takeWhile (\<lambda>s. \<not> is_sentence sid s) (children i) @
     (case dropWhile (\<lambda>s. \<not> is_sentence sid s) (children i) of
        [] \<Rightarrow> []
      | s # rest \<Rightarrow> set_attr ''emotions'' tags s # rest)"
  by (simp add: merge_line_def Let_def tag_sentence_def update_first_split)

theorem merge_line_first_sentence_per_intervention_witness:
  "children (merge_line (Some (Element ''e'' [(''int_id'', ''i000''), (''sent_id'', ''s0''), (''tags'', ''joy'')] None []))
     (Element ''debate'' [] None
        [Element ''intervention'' [(''id'', Some ''i000'')] None
           [Element ''sentence'' [(''id'', Some ''s0'')] (Some ''Hola'') [],
            Element ''sentence'' [(''id'', Some ''s0'')] (Some ''Que tal'') []],
         Element ''intervention'' [(''id'', Some ''i001'')] None
           [Element ''sentence'' [(''id'', Some ''s0'')] (Some ''Bien'') []]]))
   = [Element ''intervention'' [(''id'', Some ''i000'')] None
           [Element ''sentence'' [(''id'', Some ''s0''), (''emotions'', Some ''joy'')] (Some ''Hola'') [],
            Element ''sentence'' [(''id'', Some ''s0'')] (Some ''Que tal'') []],
         Element ''intervention'' [(''id'', Some ''i001'')] None
           [Element ''sentence'' [(''id'', Some ''s0'')] (Some ''Bien'') []]]"
  using merge_line_first_sentence_per_intervention[of
      "Element ''e'' [(''int_id'', ''i000''), (''sent_id'', ''s0''), (''tags'', ''joy'')] None []"
      "Element ''debate'' [] None
        [Element ''intervention'' [(''id'', Some ''i000'')] None
           [Element ''sentence'' [(''id'', Some ''s0'')] (Some ''Hola'') [],
            Element ''sentence'' [(''id'', Some ''s0'')] (Some ''Que tal'') []],
         Element ''intervention'' [(''id'', Some ''i001'')] None
           [Element ''sentence'' [(''id'', Some ''s0'')] (Some ''Bien'') []]]"
      "Some ''s0''" "Some ''joy''"
      "Element ''intervention'' [(''id'', Some ''i000'')] None
           [Element ''sentence'' [(''id'', Some ''s0'')] (Some ''Hola'') [],
            Element ''sentence'' [(''id'', Some ''s0'')] (Some ''Que tal'') []]"]
  by (simp add: get_attr_def is_intervention_def get_attr_mem_def is_sentence_def set_attr_def
      tag_sentence_def)

theorem merge_line_two_interventions_counterexample:
  "merge_line (Some (Element ''e'' [(''int_id'', ''i000''), (''sent_id'', ''s0''), (''tags'', ''joy'')] None []))
     (Element ''debate'' [] None
        [Element ''intervention'' [(''id'', Some ''i000'')] None
           [Element ''sentence'' [(''id'', Some ''s0'')] (Some ''Hola'') []],
         Element ''intervention'' [(''id'', Some ''i000'')] None
           [Element ''sentence'' [(''id'', Some ''s0'')] (Some ''Bien'') []]])
   = Element ''debate'' [] None
        [Element ''intervention'' [(''id'', Some ''i000'')] None
           [Element ''sentence'' [(''id'', Some ''s0''), (''emotions'', Some ''joy'')] (Some ''Hola'') []],
         Element ''intervention'' [(''id'', Some ''i000'')] None
           [Element ''sentence'' [(''id'', Some ''s0''), (''emotions'', Some ''joy'')] (Some ''Bien'') []]]"
  by (simp add: merge_line_def Let_def get_attr_def is_intervention_def get_attr_mem_def
      tag_sentence_def is_sentence_def set_attr_def)

subsection \<open>What the merge leaves alone\<close>







section \<open>Properties of the aggregation\<close>

subsection \<open>Storing texts\<close>

lemma store_texts_Nil [simp]: "store_texts [] m = m"
  by (simp add: store_texts_def)

lemma store_texts_Cons [simp]:
  "store_texts ((f, d, i, t, sp) # es) m = store_texts es (m(f \<mapsto> (d, i, t)))"
  by (simp add: store_texts_def)

lemma store_texts_other: "f \<notin> fst ` set es \<Longrightarrow> store_texts es m f = m f"
  by (induction es arbitrary: m) (auto simp: store_texts_def)


lemma accumulate_sel [simp]:
  "interventions (accumulate info d a) = interventions a + 1"
  "claims (accumulate info d a) = claims a + num_claims info"
  "proposals (accumulate info d a) = proposals a + num_proposals info"
  "fallacies (accumulate info d a) = fallacies a + num_fallacies info"
  "claims_texts (accumulate info d a) = store_texts (info_claims_texts info) (claims_texts a)"
  "proposals_texts (accumulate info d a) = store_texts (info_proposals_texts info) (proposals_texts a)"
  "fallacies_texts (accumulate info d a) = store_texts (info_fallacies_texts info) (fallacies_texts a)"
  "debates (accumulate info d a) = insert d (debates a)"
  by (simp_all add: accumulate_def)

lemma accumulate_participants [simp]:
  "participants (accumulate info d a) = participants a"
  by (simp add: accumulate_def)

subsection \<open>What an intervention yields\<close>






lemma read_intervention_Inr:
  assumes "read_intervention i pm d = Inr info"
  shows "intervention_id info = get_attr i ''id''"
    and "speaker_key info = speaker_key_of pm i"
    and "party_key info = party_key_of pm i"
    and "info_claims_texts info = snd (guarded_texts ''claims'' ''claim'' i (speaker_name_of pm i)
            (intervention_id info) d (full_intervention_text info))"
    and "num_claims info = fst (guarded_texts ''claims'' ''claim'' i (speaker_name_of pm i)
            (intervention_id info) d (full_intervention_text info))"
    and "info_proposals_texts info = snd (guarded_texts ''proposals'' ''proposal'' i (speaker_name_of pm i)
            (intervention_id info) d (full_intervention_text info))"
    and "num_proposals info = fst (guarded_texts ''proposals'' ''proposal'' i (speaker_name_of pm i)
            (intervention_id info) d (full_intervention_text info))"
    and "info_fallacies_texts info = snd (fallacy_texts i (speaker_name_of pm i)
            (intervention_id info) d (full_intervention_text info))"
    and "num_fallacies info = fst (fallacy_texts i (speaker_name_of pm i)
            (intervention_id info) d (full_intervention_text info))"
  using assms by (auto simp: read_intervention_def Let_def split: option.splits)


lemma process_intervention_Inr:
  assumes "process_intervention i pm sm pt d = Inr (sm', pt', info)"
  shows "read_intervention i pm d = Inr info"
    and "sm' = sm(speaker_key info \<mapsto> accumulate info d
            (case sm (speaker_key info) of None \<Rightarrow> new_speaker (speaker_key info) (party_of pm i) | Some a \<Rightarrow> a))"
    and "pt' = pt(party_key info \<mapsto> accumulate info d
            ((case pt (party_key info) of None \<Rightarrow> new_party | Some a \<Rightarrow> a)
               \<lparr>participants := insert (speaker_key info)
                   (participants (case pt (party_key info) of None \<Rightarrow> new_party | Some a \<Rightarrow> a))\<rparr>))"
  using assms by (auto simp: process_intervention_def Let_def split: sum.splits)

lemma count_of_update:
  "count_of field (m(k \<mapsto> a)) k' = (if k' = k then field a else count_of field m k')"
  by (simp add: count_of_def)

lemma texts_of_update:
  "texts_of field (m(k \<mapsto> a)) k' = (if k' = k then field a else texts_of field m k')"
  by (simp add: texts_of_def)

lemma new_entries_sel [simp]:
  "claims (new_speaker k p) = 0" "proposals (new_speaker k p) = 0" "fallacies (new_speaker k p) = 0"
  "interventions (new_speaker k p) = 0"
  "claims_texts (new_speaker k p) = Map.empty" "proposals_texts (new_speaker k p) = Map.empty"
  "fallacies_texts (new_speaker k p) = Map.empty"
  "claims new_party = 0" "proposals new_party = 0" "fallacies new_party = 0" "interventions new_party = 0"
  "claims_texts new_party = Map.empty" "proposals_texts new_party = Map.empty"
  "fallacies_texts new_party = Map.empty" "participants new_party = {}"
  by (simp_all add: new_speaker_def new_party_def)






subsection \<open>Counts and origins\<close>



subsection \<open>The pseudo-speakers\<close>

lemma store_local_Nil [simp]: "store_local [] m = m"
  by (simp add: store_local_def)





subsection \<open>Totals across scopes\<close>

lemma totals_agree_step:
  assumes inv: "totals_agree f cs cp P" and fk: "f k = p"
  shows "totals_agree f (cs(k := cs k + 1)) (cp(p := cp p + 1)) (P(p := insert k (P p)))"
proof -
  from inv have fin: "\<And>q. finite (P q)" and mem: "\<And>j q. j \<in> P q \<Longrightarrow> f j = q"
    and pos: "\<And>j. 0 < cs j \<Longrightarrow> j \<in> P (f j)" and tot: "\<And>q. sum cs (P q) = cp q"
    by (auto simp: totals_agree_def)
  have sum_p: "sum (cs(k := cs k + 1)) (insert k (P p)) = cp p + 1"
  proof (cases "k \<in> P p")
    case True
    then have "insert k (P p) = P p" by auto
    moreover have "sum (cs(k := cs k + 1)) (P p) = sum cs (P p) + 1"
      using True fin[of p] by (simp add: sum.remove[of "P p" k])
    ultimately show ?thesis using tot[of p] by simp
  next
    case False
    then have "cs k = 0" using pos[of k] fk by auto
    moreover have "sum (cs(k := cs k + 1)) (P p) = sum cs (P p)"
      using False by (intro sum.cong) auto
    ultimately show ?thesis using False fin[of p] tot[of p] by simp
  qed
  have sum_q: "sum (cs(k := cs k + 1)) (P q) = cp q" if "q \<noteq> p" for q
  proof -
    have "k \<notin> P q" using mem[of k q] fk that by auto
    then have "sum (cs(k := cs k + 1)) (P q) = sum cs (P q)"
      by (intro sum.cong) auto
    then show ?thesis using tot[of q] by simp
  qed
  show ?thesis
    unfolding totals_agree_def
  proof (intro conjI allI impI)
    fix q show "finite ((P(p := insert k (P p))) q)" using fin by simp
  next
    fix j q assume "j \<in> (P(p := insert k (P p))) q"
    then show "f j = q" using mem fk by (auto split: if_splits)
  next
    fix j assume "0 < (cs(k := cs k + 1)) j"
    then show "j \<in> (P(p := insert k (P p))) (f j)"
      using pos[of j] fk by (auto split: if_splits)
  next
    fix q show "sum (cs(k := cs k + 1)) ((P(p := insert k (P p))) q) = (cp(p := cp p + 1)) q"
      using sum_p sum_q by simp
  qed
qed

lemma process_intervention_views:
  assumes "process_intervention i pm sm pt d = Inr (sm', pt', info)"
  shows "count_of interventions sm' = (count_of interventions sm)
           (speaker_key info := count_of interventions sm (speaker_key info) + 1)"
    and "count_of interventions pt' = (count_of interventions pt)
           (party_key info := count_of interventions pt (party_key info) + 1)"
    and "(\<lambda>p. case pt' p of None \<Rightarrow> {} | Some a \<Rightarrow> participants a) =
         (\<lambda>p. case pt p of None \<Rightarrow> {} | Some a \<Rightarrow> participants a)
           (party_key info := insert (speaker_key info)
              (case pt (party_key info) of None \<Rightarrow> {} | Some a \<Rightarrow> participants a))"
  unfolding process_intervention_Inr(2,3)[OF assms]
  by (auto simp: count_of_def fun_eq_iff split: option.splits)

lemma views_state:
  "speaker_interventions s = count_of interventions (speaker_metrics s)"
  "party_interventions s = count_of interventions (party_metrics s)"
  "party_participants s = (\<lambda>p. case party_metrics s p of None \<Rightarrow> {} | Some a \<Rightarrow> participants a)"
  by (simp_all add: fun_eq_iff speaker_interventions_def party_interventions_def
      party_participants_def count_of_def)

lemma process_interventions_count:
  assumes "process_interventions is pm d s = Inr (s', infos)"
  shows "g_interventions s' = g_interventions s + length is \<and>
         length infos = length is \<and> debates_info s' = debates_info s"
  using assms
proof (induction "is" arbitrary: s s' infos)
  case Nil
  then show ?case by simp
next
  case (Cons i "is")
  from Cons.prems(1) obtain sm pt info s1 infos1 where
    s1: "s1 = s\<lparr>speaker_metrics := sm, party_metrics := pt,
                     g_interventions := g_interventions s + 1,
                     g_claims := g_claims s + num_claims info,
                     g_proposals := g_proposals s + num_proposals info,
                     g_fallacies := g_fallacies s + num_fallacies info\<rparr>"
    and rest: "process_interventions is pm d s1 = Inr (s', infos1)" and infos: "infos = info # infos1"
    by (auto split: sum.splits prod.splits)
  from Cons.IH[OF rest] show ?case
    by (simp add: s1 infos)
qed

lemma process_interventions_party:
  assumes "process_interventions is pm d s = Inr (s', infos)"
    and "party_consistent f s"
    and "\<forall>i \<in> set is. f (speaker_key_of pm i) = party_key_of pm i"
  shows "party_consistent f s'"
  using assms
proof (induction "is" arbitrary: s s' infos)
  case Nil
  then show ?case by simp
next
  case (Cons i "is")
  from Cons.prems(1) obtain sm pt info s1 infos1 where
    p: "process_intervention i pm (speaker_metrics s) (party_metrics s) d = Inr (sm, pt, info)"
    and s1: "s1 = s\<lparr>speaker_metrics := sm, party_metrics := pt,
                     g_interventions := g_interventions s + 1,
                     g_claims := g_claims s + num_claims info,
                     g_proposals := g_proposals s + num_proposals info,
                     g_fallacies := g_fallacies s + num_fallacies info\<rparr>"
    and rest: "process_interventions is pm d s1 = Inr (s', infos1)"
    by (auto split: sum.splits prod.splits)
  note r = read_intervention_Inr(2,3)[OF process_intervention_Inr(1)[OF p]]
  have fk: "f (speaker_key info) = party_key info"
    using Cons.prems(3) r by simp
  have "party_consistent f s1"
    using totals_agree_step[OF Cons.prems(2)[unfolded party_consistent_def] fk]
    unfolding party_consistent_def views_state s1
    by (simp add: process_intervention_views[OF p])
  from Cons.IH[OF rest this] Cons.prems(3) show ?case
    by simp
qed

lemma process_block_count:
  assumes "process_block b pm d s = Inr (s', infos)"
  shows "g_interventions s' = g_interventions s + length (block_interventions b) \<and>
         length infos = length (block_interventions b) \<and> debates_info s' = debates_info s"
proof (cases "find_el ''interventions'' b")
  case None
  then show ?thesis using assms by (simp add: process_block_def block_interventions_def)
next
  case (Some node)
  then show ?thesis
    using assms process_interventions_count[of "findall ''intervention'' node" pm d s s' infos]
    by (simp add: process_block_def block_interventions_def)
qed

lemma process_block_party:
  assumes "process_block b pm d s = Inr (s', infos)"
    and "party_consistent f s"
    and "\<forall>i \<in> set (block_interventions b). f (speaker_key_of pm i) = party_key_of pm i"
  shows "party_consistent f s'"
proof (cases "find_el ''interventions'' b")
  case None
  then show ?thesis using assms by (simp add: process_block_def block_interventions_def)
next
  case (Some node)
  then show ?thesis
    using assms process_interventions_party[of "findall ''intervention'' node" pm d s s' infos f]
    by (simp add: process_block_def block_interventions_def)
qed

lemma process_blocks_count:
  assumes "process_blocks bs pm d s = Inr (s', infos)"
  shows "g_interventions s' = g_interventions s + length (concat (map block_interventions bs)) \<and>
         length infos = length (concat (map block_interventions bs)) \<and> debates_info s' = debates_info s"
  using assms
proof (induction bs arbitrary: s s' infos)
  case Nil
  then show ?case by simp
next
  case (Cons b bs)
  from Cons.prems(1) obtain s1 infos1 infos2 where
    b: "process_block b pm d s = Inr (s1, infos1)"
    and rest: "process_blocks bs pm d s1 = Inr (s', infos2)" and infos: "infos = infos1 @ infos2"
    by (auto split: sum.splits prod.splits)
  from process_block_count[OF b] Cons.IH[OF rest] show ?case by (simp add: infos)
qed

lemma process_blocks_party:
  assumes "process_blocks bs pm d s = Inr (s', infos)"
    and "party_consistent f s"
    and "\<forall>i \<in> set (concat (map block_interventions bs)). f (speaker_key_of pm i) = party_key_of pm i"
  shows "party_consistent f s'"
  using assms
proof (induction bs arbitrary: s s' infos)
  case Nil
  then show ?case by simp
next
  case (Cons b bs)
  from Cons.prems(1) obtain s1 infos1 infos2 where
    b: "process_block b pm d s = Inr (s1, infos1)"
    and rest: "process_blocks bs pm d s1 = Inr (s', infos2)"
    by (auto split: sum.splits prod.splits)
  have "party_consistent f s1"
    using process_block_party[OF b Cons.prems(2)] Cons.prems(3) by simp
  from Cons.IH[OF rest this] Cons.prems(3) show ?case by simp
qed

lemma party_consistent_cong:
  "speaker_metrics s' = speaker_metrics s \<Longrightarrow> party_metrics s' = party_metrics s \<Longrightarrow>
   party_consistent f s' = party_consistent f s"
  by (simp add: party_consistent_def views_state)

lemma length_file_keys:
  "length (file_keys (name, Some tree)) = length (concat (map block_interventions (blocks_of tree)))"
  by (simp add: file_keys_def)

lemma process_xml_Some:
  assumes "process_xml (name, Some tree) s = Inr s'"
  shows "\<exists>s2 infos.
    process_blocks (blocks_of tree) (parse_participants (find_el ''participants'' tree))
       (debate_id_of name tree)
       (s\<lparr>g_debates := g_debates s + 1, g_blocks := g_blocks s + length (blocks_of tree)\<rparr>) = Inr (s2, infos)
    \<and> speaker_metrics s' = speaker_metrics s2 \<and> party_metrics s' = party_metrics s2
    \<and> g_interventions s' = g_interventions s2
    \<and> dom (debates_info s') = insert (debate_id_of name tree) (dom (debates_info s2))
    \<and> debate_interventions s' (debate_id_of name tree) = length infos
    \<and> (\<forall>d'. d' \<noteq> debate_id_of name tree \<longrightarrow> debate_interventions s' d' = debate_interventions s2 d')"
  using assms
  by (auto simp: process_xml_def Let_def debate_interventions_def split: sum.splits prod.splits)

lemma process_xml_None: "process_xml (name, None) s = Inr s"
  by (simp add: process_xml_def)

lemma process_xml_count:
  assumes "process_xml (name, Some tree) s = Inr s'"
  shows "g_interventions s' = g_interventions s + length (file_keys (name, Some tree)) \<and>
         debate_interventions s' (debate_id_of name tree) = length (file_keys (name, Some tree)) \<and>
         dom (debates_info s') = insert (debate_id_of name tree) (dom (debates_info s)) \<and>
         (\<forall>d'. d' \<noteq> debate_id_of name tree \<longrightarrow> debate_interventions s' d' = debate_interventions s d')"
proof -
  from process_xml_Some[OF assms] obtain s2 infos where
    bl: "process_blocks (blocks_of tree) (parse_participants (find_el ''participants'' tree))
       (debate_id_of name tree)
       (s\<lparr>g_debates := g_debates s + 1, g_blocks := g_blocks s + length (blocks_of tree)\<rparr>) = Inr (s2, infos)"
    and g: "g_interventions s' = g_interventions s2"
    and dm: "dom (debates_info s') = insert (debate_id_of name tree) (dom (debates_info s2))"
    and di: "debate_interventions s' (debate_id_of name tree) = length infos"
    and other: "\<And>d'. d' \<noteq> debate_id_of name tree \<Longrightarrow> debate_interventions s' d' = debate_interventions s2 d'"
    by blast
  from process_blocks_count[OF bl]
  have 2: "g_interventions s2 = g_interventions s + length (concat (map block_interventions (blocks_of tree)))"
    and 3: "length infos = length (concat (map block_interventions (blocks_of tree)))"
    and 4: "debates_info s2 = debates_info s"
    by simp_all
  have "debate_interventions s2 d' = debate_interventions s d'" for d'
    using 4 by (simp add: debate_interventions_def)
  then show ?thesis
    using g dm di other 2 3 4 by (simp add: length_file_keys)
qed

lemma process_xml_party:
  assumes "process_xml (name, Some tree) s = Inr s'"
    and "party_consistent f s"
    and "\<forall>kp \<in> set (file_keys (name, Some tree)). f (fst kp) = snd kp"
  shows "party_consistent f s'"
proof -
  let ?pm = "parse_participants (find_el ''participants'' tree)"
  let ?s0 = "s\<lparr>g_debates := g_debates s + 1, g_blocks := g_blocks s + length (blocks_of tree)\<rparr>"
  from process_xml_Some[OF assms(1)] obtain s2 infos where
    bl: "process_blocks (blocks_of tree) ?pm (debate_id_of name tree) ?s0 = Inr (s2, infos)"
    and sm: "speaker_metrics s' = speaker_metrics s2" and pt: "party_metrics s' = party_metrics s2"
    by blast
  have c0: "party_consistent f ?s0"
    using assms(2) party_consistent_cong[of ?s0 s f] by simp
  have keys: "\<forall>i \<in> set (concat (map block_interventions (blocks_of tree))).
                 f (speaker_key_of ?pm i) = party_key_of ?pm i"
    using assms(3) by (simp add: file_keys_def)
  from process_blocks_party[OF bl c0 keys] party_consistent_cong[OF sm pt]
  show ?thesis by simp
qed

lemma process_files_party:
  assumes "process_files files s = Inr s'"
    and "party_consistent f s"
    and "\<forall>kp \<in> set (concat (map file_keys files)). f (fst kp) = snd kp"
  shows "party_consistent f s'"
  using assms
proof (induction files arbitrary: s)
  case Nil
  then show ?case by simp
next
  case (Cons fl files)
  from Cons.prems(1) obtain s1 where x: "process_xml fl s = Inr s1"
    and rest: "process_files files s1 = Inr s'"
    by (auto split: sum.splits)
  obtain name t where fl: "fl = (name, t)" by (cases fl)
  have "party_consistent f s1"
  proof (cases t)
    case None
    then show ?thesis using x Cons.prems(2) by (simp add: fl process_xml_None)
  next
    case (Some tree)
    then show ?thesis
      using process_xml_party[of name tree s s1 f] x Cons.prems(2,3) by (simp add: fl)
  qed
  from Cons.IH[OF rest this] Cons.prems(3) show ?case by simp
qed

lemma process_files_debates:
  assumes "process_files files s = Inr s'"
    and "distinct (ids @ file_ids files)"
    and "dom (debates_info s) = set ids"
    and "sum (debate_interventions s) (set ids) = g_interventions s"
  shows "dom (debates_info s') = set (ids @ file_ids files) \<and>
         sum (debate_interventions s') (set (ids @ file_ids files)) = g_interventions s'"
  using assms
proof (induction files arbitrary: s ids)
  case Nil
  then show ?case by (simp add: file_ids_def)
next
  case (Cons fl files)
  from Cons.prems(1) obtain s1 where x: "process_xml fl s = Inr s1"
    and rest: "process_files files s1 = Inr s'"
    by (auto split: sum.splits)
  obtain name t where fl: "fl = (name, t)" by (cases fl)
  show ?case
  proof (cases t)
    case None
    then have "s1 = s" using x by (simp add: fl process_xml_None)
    moreover have "file_ids (fl # files) = file_ids files"
      using None by (simp add: fl file_ids_def)
    ultimately show ?thesis using Cons.IH[OF rest, of ids] Cons.prems(2-4) by simp
  next
    case (Some tree)
    let ?d = "debate_id_of name tree"
    have ids: "file_ids (fl # files) = ?d # file_ids files"
      using Some by (simp add: fl file_ids_def)
    from x Some have xs: "process_xml (name, Some tree) s = Inr s1" by (simp add: fl)
    note c = process_xml_count[OF xs]
    have fresh: "?d \<notin> set ids" using Cons.prems(2) ids by auto
    have dom1: "dom (debates_info s1) = set (ids @ [?d])"
      using c Cons.prems(3) by auto
    have same: "debate_interventions s1 x = debate_interventions s x" if "x \<in> set ids" for x
    proof -
      from that fresh have "x \<noteq> ?d" by blast
      with c show ?thesis by blast
    qed
    have "sum (debate_interventions s1) (set ids) = sum (debate_interventions s) (set ids)"
      by (rule sum.cong) (simp_all add: same)
    then have sum1: "sum (debate_interventions s1) (set (ids @ [?d])) = g_interventions s1"
      using c fresh Cons.prems(4) by simp
    have dist: "distinct ((ids @ [?d]) @ file_ids files)"
      using Cons.prems(2) ids by simp
    from Cons.IH[OF rest dist dom1 sum1] show ?thesis by (simp add: ids)
  qed
qed

lemma party_consistent_initial: "party_consistent f initial_state"
  by (simp add: party_consistent_def totals_agree_def initial_state_def speaker_interventions_def
      party_interventions_def party_participants_def)

lemma find_by_fst:
  assumes "kp \<in> set K"
  shows "\<exists>x. List.find (\<lambda>x. fst x = fst kp) K = Some x \<and> fst x = fst kp \<and> x \<in> set K"
proof (cases "List.find (\<lambda>x. fst x = fst kp) K")
  case None
  then have "fst kp \<notin> fst ` set K" using find_time_None[of "fst kp" K] by blast
  with assms show ?thesis by blast
next
  case (Some x)
  from find_time_Some[OF Some] Some show ?thesis by blast
qed

text \<open>
  Claim C3, as amended. After a run over any list of files that ends without an error:
  if every speaker key is met with one party key only, then for every party the counts
  of interventions of its participants add up to the party's count of interventions;
  and if the debate ids of the files are distinct, the dictionary of debates has
  exactly these ids and the counts of interventions per debate add up to the global
  count of interventions.
\<close>

theorem totals_consistent_across_scopes:
  assumes m: "main files = Inr s"
  shows "(one_party_per_speaker (concat (map file_keys files)) \<longrightarrow>
           (\<forall>p. sum (speaker_interventions s) (party_participants s p) = party_interventions s p)) \<and>
         (distinct (file_ids files) \<longrightarrow>
           dom (debates_info s) = set (file_ids files) \<and>
           sum (debate_interventions s) (set (file_ids files)) = g_interventions s)"
proof (intro conjI impI)
  define K where "K = concat (map file_keys files)"
  assume "one_party_per_speaker (concat (map file_keys files))"
  then have one: "one_party_per_speaker K" by (simp add: K_def)
  define f where "f k = (case List.find (\<lambda>x. fst x = k) K of None \<Rightarrow> [] | Some x \<Rightarrow> snd x)" for k
  have "\<forall>kp \<in> set K. f (fst kp) = snd kp"
  proof
    fix kp assume kp: "kp \<in> set K"
    from find_by_fst[OF kp] obtain x where x: "List.find (\<lambda>x. fst x = fst kp) K = Some x"
      and "fst x = fst kp" "x \<in> set K" by blast
    with one kp have "snd x = snd kp"
      unfolding one_party_per_speaker_def by blast
    with x show "f (fst kp) = snd kp" by (simp add: f_def)
  qed
  then have fk: "\<forall>kp \<in> set (concat (map file_keys files)). f (fst kp) = snd kp"
    by (simp only: K_def)
  from process_files_party[OF m[unfolded main_def] party_consistent_initial fk]
  show "\<forall>p. sum (speaker_interventions s) (party_participants s p) = party_interventions s p"
    by (simp add: party_consistent_def totals_agree_def)
next
  assume d: "distinct (file_ids files)"
  have "dom (debates_info s) = set ([] @ file_ids files) \<and>
        sum (debate_interventions s) (set ([] @ file_ids files)) = g_interventions s"
    by (rule process_files_debates[OF m[unfolded main_def]])
       (simp_all add: d initial_state_def)
  then show "dom (debates_info s) = set (file_ids files)"
    and "sum (debate_interventions s) (set (file_ids files)) = g_interventions s"
    by simp_all
qed

theorem totals_consistent_across_scopes_witness:
  "(let files = [(''a.xml'', Some (Element ''debate'' [(''date'', ''2019-04-22'')] None
         [Element ''participants'' [] None
            [Element ''participant'' [(''id'', ''p0''), (''full-name'', ''Ana''), (''party'', ''PSOE'')] None [],
             Element ''participant'' [(''id'', ''p1''), (''full-name'', ''Luis''), (''party'', ''PP'')] None []],
          Element ''blocks'' [] None
            [Element ''block'' [(''id'', ''b0'')] None
               [Element ''interventions'' [] None
                  [Element ''intervention'' [(''id'', ''i000''), (''participant-id'', ''p0'')] None
                     [Element ''sentences'' [] None []],
                   Element ''intervention'' [(''id'', ''i001''), (''participant-id'', ''p1'')] None
                     [Element ''sentences'' [] None []]]]]])),
       (''b.xml'', None),
       (''c.xml'', Some (Element ''debate'' [] None
         [Element ''participants'' [] None
            [Element ''participant'' [(''id'', ''p0''), (''full-name'', ''Ana''), (''party'', ''PSOE'')] None []],
          Element ''blocks'' [] None
            [Element ''block'' [(''id'', ''b0'')] None
               [Element ''interventions'' [] None
                  [Element ''intervention'' [(''id'', ''i000''), (''participant-id'', ''p0'')] None
                     [Element ''sentences'' [] None []]]]]]))]
    in one_party_per_speaker (concat (map file_keys files)) \<and>
       distinct (file_ids files) \<and>
       (case main files of
          Inl e \<Rightarrow> False
        | Inr s \<Rightarrow>
            sum (speaker_interventions s) (party_participants s ''PSOE'') = party_interventions s ''PSOE'' \<and>
            party_interventions s ''PSOE'' = 2 \<and>
            dom (debates_info s) = set (file_ids files) \<and>
            sum (debate_interventions s) (set (file_ids files)) = g_interventions s \<and>
            g_interventions s = 3))"
proof -
  let ?files = "[(''a.xml'', Some (Element ''debate'' [(''date'', ''2019-04-22'')] None
         [Element ''participants'' [] None
            [Element ''participant'' [(''id'', ''p0''), (''full-name'', ''Ana''), (''party'', ''PSOE'')] None [],
             Element ''participant'' [(''id'', ''p1''), (''full-name'', ''Luis''), (''party'', ''PP'')] None []],
          Element ''blocks'' [] None
            [Element ''block'' [(''id'', ''b0'')] None
               [Element ''interventions'' [] None
                  [Element ''intervention'' [(''id'', ''i000''), (''participant-id'', ''p0'')] None
                     [Element ''sentences'' [] None []],
                   Element ''intervention'' [(''id'', ''i001''), (''participant-id'', ''p1'')] None
                     [Element ''sentences'' [] None []]]]]])),
       (''b.xml'', None),
       (''c.xml'', Some (Element ''debate'' [] None
         [Element ''participants'' [] None
            [Element ''participant'' [(''id'', ''p0''), (''full-name'', ''Ana''), (''party'', ''PSOE'')] None []],
          Element ''blocks'' [] None
            [Element ''block'' [(''id'', ''b0'')] None
               [Element ''interventions'' [] None
                  [Element ''intervention'' [(''id'', ''i000''), (''participant-id'', ''p0'')] None
                     [Element ''sentences'' [] None []]]]]]))]"
  have v: "(case main ?files of Inl e \<Rightarrow> False
            | Inr s \<Rightarrow> party_interventions s ''PSOE'' = 2 \<and> g_interventions s = 3)"
    by code_simp
  then obtain s where m: "main ?files = Inr s"
    by (cases "main ?files") auto
  have k: "one_party_per_speaker (concat (map file_keys ?files))" by code_simp
  have i: "distinct (file_ids ?files)" by code_simp
  from totals_consistent_across_scopes[OF m] k i
  have "sum (speaker_interventions s) (party_participants s ''PSOE'') = party_interventions s ''PSOE''"
    and "dom (debates_info s) = set (file_ids ?files)"
    and "sum (debate_interventions s) (set (file_ids ?files)) = g_interventions s"
    by blast+
  with v k i show ?thesis
    unfolding Let_def by (simp only: m sum.case simp_thms)
qed

lemma process_files_dom:
  "process_files files s = Inr s' \<Longrightarrow> dom (debates_info s') = dom (debates_info s) \<union> set (file_ids files)"
proof (induction files arbitrary: s)
  case Nil
  then show ?case by (simp add: file_ids_def)
next
  case (Cons fl files)
  from Cons.prems obtain s1 where x: "process_xml fl s = Inr s1"
    and rest: "process_files files s1 = Inr s'"
    by (auto split: sum.splits)
  obtain name t where fl: "fl = (name, t)" by (cases fl)
  show ?case
  proof (cases t)
    case None
    then show ?thesis using x Cons.IH[OF rest] by (simp add: fl process_xml_None file_ids_def)
  next
    case (Some tree)
    with x have "process_xml (name, Some tree) s = Inr s1" by (simp add: fl)
    from process_xml_count[OF this] Cons.IH[OF rest] Some show ?thesis
      by (auto simp: fl file_ids_def)
  qed
qed

theorem totals_not_consistent_counterexample:
  "(case main
      [(''a.xml'', Some (Element ''debate'' [(''date'', ''2019-04-22'')] None
         [Element ''participants'' [] None
            [Element ''participant'' [(''id'', ''p0''), (''full-name'', ''Ana''), (''party'', ''PSOE'')] None []],
          Element ''blocks'' [] None
            [Element ''block'' [(''id'', ''b0'')] None
               [Element ''interventions'' [] None
                  [Element ''intervention'' [(''id'', ''i000''), (''participant-id'', ''p0'')] None
                     [Element ''sentences'' [] None []]]]]])),
       (''b.xml'', Some (Element ''debate'' [(''date'', ''2023-07-10'')] None
         [Element ''participants'' [] None
            [Element ''participant'' [(''id'', ''p0''), (''full-name'', ''Ana''), (''party'', ''Sumar'')] None []],
          Element ''blocks'' [] None
            [Element ''block'' [(''id'', ''b0'')] None
               [Element ''interventions'' [] None
                  [Element ''intervention'' [(''id'', ''i000''), (''participant-id'', ''p0'')] None
                     [Element ''sentences'' [] None []]]]]]))] of
      Inl e \<Rightarrow> False
    | Inr s \<Rightarrow>
        party_participants s ''PSOE'' = {''Ana''} \<and>
        speaker_interventions s ''Ana'' = 2 \<and>
        sum (speaker_interventions s) (party_participants s ''PSOE'') = 2 \<and>
        party_interventions s ''PSOE'' = 1) \<and>
   (case main
      [(''a.xml'', Some (Element ''debate'' [(''date'', ''2019-04-22'')] None
         [Element ''blocks'' [] None
            [Element ''block'' [(''id'', ''b0'')] None
               [Element ''interventions'' [] None
                  [Element ''intervention'' [(''id'', ''i000'')] None
                     [Element ''sentences'' [] None []]]]]])),
       (''b.xml'', Some (Element ''debate'' [(''date'', ''2019-04-22'')] None
         [Element ''blocks'' [] None
            [Element ''block'' [(''id'', ''b0'')] None
               [Element ''interventions'' [] None
                  [Element ''intervention'' [(''id'', ''i000'')] None
                     [Element ''sentences'' [] None []]]]]]))] of
      Inl e \<Rightarrow> False
    | Inr s \<Rightarrow>
        dom (debates_info s) = {''2019-04-22''} \<and>
        sum (debate_interventions s) (dom (debates_info s)) = 1 \<and>
        g_interventions s = 2)"
proof -
  let ?g = "[(''a.xml'', Some (Element ''debate'' [(''date'', ''2019-04-22'')] None
         [Element ''blocks'' [] None
            [Element ''block'' [(''id'', ''b0'')] None
               [Element ''interventions'' [] None
                  [Element ''intervention'' [(''id'', ''i000'')] None
                     [Element ''sentences'' [] None []]]]]])),
       (''b.xml'', Some (Element ''debate'' [(''date'', ''2019-04-22'')] None
         [Element ''blocks'' [] None
            [Element ''block'' [(''id'', ''b0'')] None
               [Element ''interventions'' [] None
                  [Element ''intervention'' [(''id'', ''i000'')] None
                     [Element ''sentences'' [] None []]]]]]))]"
  have v: "(case main ?g of Inl e \<Rightarrow> False
            | Inr s \<Rightarrow> debate_interventions s ''2019-04-22'' = 1 \<and> g_interventions s = 2)"
    by code_simp
  then obtain s where m: "main ?g = Inr s"
    by (cases "main ?g") auto
  have i: "file_ids ?g = [''2019-04-22'', ''2019-04-22'']" by code_simp
  have d: "dom (debates_info s) = {''2019-04-22''}"
    using process_files_dom[OF m[unfolded main_def]] i by (simp add: initial_state_def)
  have second: "(case main ?g of Inl e \<Rightarrow> False
    | Inr s \<Rightarrow>
        dom (debates_info s) = {''2019-04-22''} \<and>
        sum (debate_interventions s) (dom (debates_info s)) = 1 \<and>
        g_interventions s = 2)"
    using v d by (simp add: m)
  have first: "(case main
      [(''a.xml'', Some (Element ''debate'' [(''date'', ''2019-04-22'')] None
         [Element ''participants'' [] None
            [Element ''participant'' [(''id'', ''p0''), (''full-name'', ''Ana''), (''party'', ''PSOE'')] None []],
          Element ''blocks'' [] None
            [Element ''block'' [(''id'', ''b0'')] None
               [Element ''interventions'' [] None
                  [Element ''intervention'' [(''id'', ''i000''), (''participant-id'', ''p0'')] None
                     [Element ''sentences'' [] None []]]]]])),
       (''b.xml'', Some (Element ''debate'' [(''date'', ''2023-07-10'')] None
         [Element ''participants'' [] None
            [Element ''participant'' [(''id'', ''p0''), (''full-name'', ''Ana''), (''party'', ''Sumar'')] None []],
          Element ''blocks'' [] None
            [Element ''block'' [(''id'', ''b0'')] None
               [Element ''interventions'' [] None
                  [Element ''intervention'' [(''id'', ''i000''), (''participant-id'', ''p0'')] None
                     [Element ''sentences'' [] None []]]]]]))] of
      Inl e \<Rightarrow> False
    | Inr s \<Rightarrow>
        party_participants s ''PSOE'' = {''Ana''} \<and>
        speaker_interventions s ''Ana'' = 2 \<and>
        sum (speaker_interventions s) (party_participants s ''PSOE'') = 2 \<and>
        party_interventions s ''PSOE'' = 1)"
    by code_simp
  from first second show ?thesis by (rule conjI)
qed

end
